theory Spec2Isabelle
  imports Complex_Main "HOL-Library.AList"
begin

section \<open>Python values, exceptions and the outside world\<close>

text \<open>
  The program is Python. Its dictionaries, lists, strings and numbers are modelled by one
  datatype of JSON-shaped values. A dictionary is an association list: \<open>AList.update\<close>
  replaces the value of a key in place or appends a new key at the end, which is the
  insertion order of a Python dict. Floats are only passed through by the program and are
  carried as rationals. A string is the UTF-8 encoding of the Python string.
\<close>

datatype pyval =
    PNone
  | PBool bool
  | PInt int
  | PFloat rat
  | PStr string
  | PList "pyval list"
  | PDict "(string \<times> pyval) list"

type_synonym pydict = "(string \<times> pyval) list"

datatype exn_kind =
    RuntimeError | ValueError | FileNotFoundError | OSError
  | AttributeError | TypeError | KeyError | IndexError | ServiceError
  | HTTPException nat

text \<open>An exception: its class and the text that \<open>str(e)\<close> gives.\<close>

datatype exn = Exn exn_kind string

fun exn_str :: "exn \<Rightarrow> string" where
  "exn_str (Exn k m) = m"

text \<open>Sequencing of steps that may raise: the first exception ends the computation.\<close>

fun seq :: "exn + 'a \<Rightarrow> ('a \<Rightarrow> exn + 'b) \<Rightarrow> exn + 'b" where
  "seq (Inl e) f = Inl e"
| "seq (Inr v) f = f v"

text \<open>Python truthiness (\<open>if x\<close>, \<open>not x\<close>, \<open>x or y\<close>).\<close>

fun truthy :: "pyval \<Rightarrow> bool" where
  "truthy PNone = False"
| "truthy (PBool b) = b"
| "truthy (PInt i) = (i \<noteq> 0)"
| "truthy (PFloat r) = (r \<noteq> 0)"
| "truthy (PStr s) = (s \<noteq> [])"
| "truthy (PList xs) = (xs \<noteq> [])"
| "truthy (PDict d) = (d \<noteq> [])"

definition py_or :: "pyval \<Rightarrow> pyval \<Rightarrow> pyval" where
  "py_or a b = (if truthy a then a else b)"

text \<open>\<open>a or b\<close> where evaluating \<open>b\<close> may raise: \<open>b\<close> is evaluated only when \<open>a\<close> is falsy.\<close>

definition py_or_else :: "pyval \<Rightarrow> (exn + pyval) \<Rightarrow> exn + pyval" where
  "py_or_else a b = (if truthy a then Inr a else b)"

definition dict_get :: "pydict \<Rightarrow> string \<Rightarrow> pyval \<Rightarrow> pyval" where
  "dict_get d k dflt = (case map_of d k of Some v \<Rightarrow> v | None \<Rightarrow> dflt)"

text \<open>\<open>x.get(k, dflt)\<close>: only a dict has the method.\<close>

fun py_get :: "pyval \<Rightarrow> string \<Rightarrow> pyval \<Rightarrow> exn + pyval" where
  "py_get (PDict d) k dflt = Inr (dict_get d k dflt)"
| "py_get v k dflt = Inl (Exn AttributeError ''object has no attribute get'')"

text \<open>
  String methods. A string is the UTF-8 encoding of a Python \<open>str\<close>. \<open>str.strip()\<close>
  removes from both ends the characters for which \<open>str.isspace()\<close> holds; these are 29
  code points (U+0009 to U+000D, U+001C to U+0020, U+0085, U+00A0, U+1680, U+2000 to
  U+200A, U+2028, U+2029, U+202F, U+205F, U+3000), listed here by their encodings. In
  well-formed UTF-8 no encoding is the end of a longer one, so removing whole encodings
  from the end of the bytes removes whole characters.
\<close>

definition py_whitespace :: "string list" where
  "py_whitespace = [
    [CHR 0x09], [CHR 0x0A], [CHR 0x0B], [CHR 0x0C], [CHR 0x0D], [CHR 0x1C], [CHR 0x1D],
     [CHR 0x1E], [CHR 0x1F], [CHR 0x20], [CHR 0xC2, CHR 0x85], [CHR 0xC2, CHR 0xA0],
     [CHR 0xE1, CHR 0x9A, CHR 0x80], [CHR 0xE2, CHR 0x80, CHR 0x80],
     [CHR 0xE2, CHR 0x80, CHR 0x81], [CHR 0xE2, CHR 0x80, CHR 0x82],
     [CHR 0xE2, CHR 0x80, CHR 0x83], [CHR 0xE2, CHR 0x80, CHR 0x84],
     [CHR 0xE2, CHR 0x80, CHR 0x85], [CHR 0xE2, CHR 0x80, CHR 0x86],
     [CHR 0xE2, CHR 0x80, CHR 0x87], [CHR 0xE2, CHR 0x80, CHR 0x88],
     [CHR 0xE2, CHR 0x80, CHR 0x89], [CHR 0xE2, CHR 0x80, CHR 0x8A],
     [CHR 0xE2, CHR 0x80, CHR 0xA8], [CHR 0xE2, CHR 0x80, CHR 0xA9],
     [CHR 0xE2, CHR 0x80, CHR 0xAF], [CHR 0xE2, CHR 0x81, CHR 0x9F],
     [CHR 0xE3, CHR 0x80, CHR 0x80]]"

text \<open>Remove, at most \<open>n\<close> times, one of the given prefixes from the front.\<close>

primrec lstrip_any :: "string list \<Rightarrow> nat \<Rightarrow> string \<Rightarrow> string" where
  "lstrip_any ps 0 s = s"
| "lstrip_any ps (Suc n) s =
     (case find (\<lambda>p. p \<noteq> [] \<and> take (length p) s = p) ps of
        Some p \<Rightarrow> lstrip_any ps n (drop (length p) s)
      | None \<Rightarrow> s)"

definition str_lstrip :: "string \<Rightarrow> string" where
  "str_lstrip s = lstrip_any py_whitespace (length s) s"

definition str_rstrip :: "string \<Rightarrow> string" where
  "str_rstrip s = rev (lstrip_any (map rev py_whitespace) (length s) (rev s))"

definition str_strip :: "string \<Rightarrow> string" where
  "str_strip s = str_rstrip (str_lstrip s)"

text \<open>\<open>s.strip(chars)\<close> for ASCII \<open>chars\<close>: the bytes of \<open>chars\<close> are removed from both ends.\<close>

definition strip_chars :: "(char \<Rightarrow> bool) \<Rightarrow> string \<Rightarrow> string" where
  "strip_chars p s = rev (dropWhile p (rev (dropWhile p s)))"

definition str_strip_set :: "string \<Rightarrow> string \<Rightarrow> string" where
  "str_strip_set cs s = strip_chars (\<lambda>c. c \<in> set cs) s"

text \<open>\<open>s.split(",")[0]\<close>: the part before the first comma, the whole string without one.\<close>

definition split_comma_first :: "string \<Rightarrow> string" where
  "split_comma_first s = takeWhile (\<lambda>c. c \<noteq> CHR '','') s"

fun py_strip :: "pyval \<Rightarrow> exn + string" where
  "py_strip (PStr s) = Inr (str_strip s)"
| "py_strip v = Inl (Exn AttributeError ''object has no attribute strip'')"

fun py_split_comma_first :: "pyval \<Rightarrow> exn + string" where
  "py_split_comma_first (PStr s) = Inr (split_comma_first s)"
| "py_split_comma_first v = Inl (Exn AttributeError ''object has no attribute split'')"

definition lower_char :: "char \<Rightarrow> char" where
  "lower_char c =
     (case map_of (zip ''ABCDEFGHIJKLMNOPQRSTUVWXYZ'' ''abcdefghijklmnopqrstuvwxyz'') c of
        Some l \<Rightarrow> l
      | None \<Rightarrow> c)"

definition str_lower :: "string \<Rightarrow> string" where
  "str_lower s = map lower_char s"

definition startswith :: "string \<Rightarrow> string \<Rightarrow> bool" where
  "startswith s p = (take (length p) s = p)"

text \<open>\<open>sub in s\<close> on strings: \<open>sub\<close> occurs in \<open>s\<close> as a contiguous substring.\<close>

fun str_contains :: "string \<Rightarrow> string \<Rightarrow> bool" where
  "str_contains sub [] = (sub = [])"
| "str_contains sub (c # cs) = (startswith (c # cs) sub \<or> str_contains sub cs)"

text \<open>An environment variable or optional argument counts when it is set and not empty.\<close>

fun opt_truthy :: "string option \<Rightarrow> bool" where
  "opt_truthy None = False"
| "opt_truthy (Some s) = (s \<noteq> [])"

definition opt_or :: "string option \<Rightarrow> string option \<Rightarrow> string option" where
  "opt_or a b = (if opt_truthy a then a else b)"

text \<open>\<open>str(v)\<close> inside an f-string: a string is itself, anything else is rendered by the
  interpreter (\<open>render\<close>, a parameter).\<close>

definition py_str :: "(pyval \<Rightarrow> string) \<Rightarrow> pyval \<Rightarrow> string" where
  "py_str render v = (case v of PStr s \<Rightarrow> s | _ \<Rightarrow> render v)"

text \<open>\<open>os.path.join(a, b)\<close> on POSIX paths.\<close>

definition path_join :: "string \<Rightarrow> string \<Rightarrow> string" where
  "path_join a b =
     (if startswith b ''/'' then b
      else if a = [] \<or> last a = CHR ''/'' then a @ b
      else a @ ''/'' @ b)"

subsection \<open>External collaborators\<close>

text \<open>
  What the speech recogniser hands back from \<open>recognize_once()\<close>: the reason code, the
  text, the parsed JSON payload (\<open>None\<close> when \<open>json.loads(result.json)\<close> raises) and the
  rendered \<open>error_details\<close>.
\<close>

datatype stt_reason = RecognizedSpeech | NoMatch | Canceled

record stt_result =
  stt_reason :: stt_reason
  stt_text :: string
  stt_json :: "pyval option"
  stt_error_details :: string

text \<open>
  Everything the program gets from outside is a field of the environment: the
  configuration read from environment variables, the library functions (spaCy, the
  regular-expression search with the source's pattern, rapidfuzz, dateparser, datetime
  formatting, \<open>json.dumps\<close>), the clock, the file system's refusals and the network
  services. A time is an integer number of microseconds since the epoch. The clock, the
  file system and the network are asked with the number of events so far, so that two
  calls with the same arguments may answer differently.
\<close>

record env =
  OPENWEATHER_API_KEY :: "string option"
  AZURE_KEY :: "string option"
  AZURE_REGION :: "string option"
  TRANSLATOR_KEY :: "string option"
  TRANSLATOR_REGION :: "string option"
  OPENAI_API_KEY :: "string option"
  GOOGLE_API_KEY :: "string option"
  UPLOAD_DIR :: string
  nlp :: "(string \<Rightarrow> (string \<times> string) list) option"
  re_search_location :: "string \<Rightarrow> string option"
  extractOne :: "string \<Rightarrow> string list \<Rightarrow> nat \<Rightarrow> (string \<times> rat \<times> nat) option"
  dateparser_parse :: "string \<Rightarrow> int option"
  strftime_ymd :: "int \<Rightarrow> string"
  isoformat :: "int \<Rightarrow> string"
  isoformat_utc :: "int \<Rightarrow> string"
  utcfromtimestamp :: "pyval \<Rightarrow> exn + int"
  json_dumps :: "pyval \<Rightarrow> string"
  py_render :: "pyval \<Rightarrow> string"
  clock :: "nat \<Rightarrow> int"
  fs_fault :: "nat \<Rightarrow> string \<Rightarrow> exn option"
  http_geo :: "nat \<Rightarrow> string \<Rightarrow> nat \<Rightarrow> string option \<Rightarrow> exn + pyval"
  http_weather :: "nat \<Rightarrow> pyval \<Rightarrow> pyval \<Rightarrow> string option \<Rightarrow> exn + pyval"
  recognize_once :: "nat \<Rightarrow> string \<Rightarrow> string list \<Rightarrow> exn + stt_result"
  translator_post :: "nat \<Rightarrow> pyval \<Rightarrow> string option \<Rightarrow> exn + string"
  generate_content :: "nat \<Rightarrow> string \<Rightarrow> string \<Rightarrow> string \<Rightarrow> exn + string"

text \<open>The observable effects, in the order they happen.\<close>

datatype event =
    EvClock
  | EvHttpGeo string nat
  | EvHttpWeather pyval pyval
  | EvRecognize string "string list"
  | EvTranslate pyval
  | EvLLM string string
  | EvWrite string pyval
  | EvWriteFailed string

text \<open>The world: the files under the upload directory (a JSON file holds its parsed
  value, a text file a \<open>PStr\<close>) and the events so far.\<close>

record world =
  files :: "string \<Rightarrow> pyval option"
  events :: "event list"

definition emit :: "event \<Rightarrow> world \<Rightarrow> world" where
  "emit ev w = w\<lparr>events := events w @ [ev]\<rparr>"

definition read_clock :: "env \<Rightarrow> world \<Rightarrow> int \<times> world" where
  "read_clock env w = (clock env (length (events w)), emit EvClock w)"

text \<open>\<open>with open(path, "w") as f: ...\<close>: the file system either refuses (the file is left
  as it was) or the file now holds the new content.\<close>

definition fs_write :: "env \<Rightarrow> string \<Rightarrow> pyval \<Rightarrow> world \<Rightarrow> (exn + unit) \<times> world" where
  "fs_write env path v w =
     (case fs_fault env (length (events w)) path of
        Some e \<Rightarrow> (Inl e, emit (EvWriteFailed path) w)
      | None \<Rightarrow> (Inr (), emit (EvWrite path v) (w\<lparr>files := (files w)(path \<mapsto> v)\<rparr>)))"

definition stt_sidecar_path :: "env \<Rightarrow> string \<Rightarrow> string" where
  "stt_sidecar_path env trace_id = path_join (UPLOAD_DIR env) (trace_id @ ''.json'')"

section \<open>chatbot.py\<close>

definition load_json :: "string \<Rightarrow> world \<Rightarrow> exn + pyval" where
  "load_json path w =
     (case files w path of
        None \<Rightarrow> Inl (Exn FileNotFoundError ''No such file or directory'')
      | Some v \<Rightarrow> Inr v)"

definition extract_nlu_weather :: "pyval \<Rightarrow> exn + (pyval \<times> pyval)" where
  "extract_nlu_weather root' =
     seq (py_get root' ''nlu'' PNone) (\<lambda>n0.
     seq (py_or_else n0
            (seq (py_get root' ''agent_raw'' (PDict [])) (\<lambda>raw. py_get raw ''nlu'' PNone))) (\<lambda>nlu.
     seq (py_get root' ''weather'' PNone) (\<lambda>w0.
     seq (py_or_else w0
            (seq (py_get root' ''agent_raw'' (PDict [])) (\<lambda>raw. py_get raw ''weather'' PNone))) (\<lambda>weather.
     if \<not> truthy nlu then Inl (Exn ValueError ''No NLU found in JSON'')
     else if \<not> truthy weather then Inl (Exn ValueError ''No weather found in JSON'')
     else Inr (nlu, weather)))))"

definition build_merged_context :: "pyval \<Rightarrow> pyval \<Rightarrow> exn + pyval" where
  "build_merged_context nlu weather =
     seq (py_get nlu ''dialog_metadata'' (PDict [])) (\<lambda>dm0.
     seq (py_get nlu ''entities'' (PDict [])) (\<lambda>en0.
     seq (py_get nlu ''slots'' (PDict [])) (\<lambda>sl0.
     let dialog_md = py_or dm0 (PDict []);
         entities = py_or en0 (PDict []);
         slots = py_or sl0 (PDict [])
     in
     seq (py_get dialog_md ''original_query'' PNone) (\<lambda>oq.
     let original_query = py_or oq (PStr '''') in
     seq (py_get entities ''date'' PNone) (\<lambda>date_val.
     seq (py_get slots ''theme'' PNone) (\<lambda>theme_val.
     seq (py_get weather ''location'' PNone) (\<lambda>wl.
     seq (py_or_else wl (py_get entities ''location'' PNone)) (\<lambda>l0.
     seq (py_strip (py_or l0 (PStr ''''))) (\<lambda>loc.
     seq (py_get weather ''country'' PNone) (\<lambda>c0.
     seq (py_strip (py_or c0 (PStr ''''))) (\<lambda>country.
     let location_str = str_strip (str_strip_set '', '' (loc @ '', '' @ country)) in
     seq (py_get nlu ''intent'' PNone) (\<lambda>intent.
     Inr (PDict [
       (''user_query'', original_query),
       (''intent'', intent),
       (''location'', PStr location_str),
       (''date'', date_val),
       (''theme'', theme_val),
       (''weather_data'', weather)])))))))))))))"

text \<open>The fixed system instruction; the dash in \<open>1-2\<close> is an en dash (three bytes).\<close>

definition en_dash :: string where
  "en_dash = [CHR 0xE2, CHR 0x80, CHR 0x93]"

definition system_prompt :: string where
  "system_prompt =
     ''You are a friendly travel assistant and weather guide. '' @
     ''Always start with a concise weather summary for the location and date, '' @
     ''then add 1'' @ en_dash @ ''2 short travel tips if relevant.''"

definition user_prompt :: "env \<Rightarrow> pydict \<Rightarrow> string" where
  "user_prompt env merged_context =
     ''Original query: '' @ [CHR 0x27] @
       py_str (py_render env) (dict_get merged_context ''user_query'' PNone) @ [CHR 0x27, CHR 0x0A] @
     ''Context: '' @ json_dumps env (PDict merged_context) @ [CHR 0x0A, CHR 0x0A] @
     ''Produce 1'' @ en_dash @ ''3 sentences for the weather + 1 short travel tip.''"

text \<open>\<open>call_model_generate\<close>: one request to the model; the SDK's configuration and the
  extraction of the text are inside the service.\<close>

definition call_model_generate ::
    "env \<Rightarrow> string \<Rightarrow> string \<Rightarrow> string \<Rightarrow> world \<Rightarrow> (exn + string) \<times> world" where
  "call_model_generate env api_key sys_p usr_p w =
     (generate_content env (length (events w)) api_key sys_p usr_p, emit (EvLLM sys_p usr_p) w)"

text \<open>The city shown with the response (line 95).\<close>

definition response_city :: "pyval \<Rightarrow> pyval \<Rightarrow> exn + string" where
  "response_city nlu weather =
     seq (py_get weather ''location'' PNone) (\<lambda>wl.
     seq (py_or_else wl
            (seq (py_get nlu ''entities'' PNone) (\<lambda>en.
             py_get (py_or en (PDict [])) ''location'' PNone))) (\<lambda>l0.
     seq (py_split_comma_first (py_or l0 (PStr ''unknown''))) (\<lambda>c.
     Inr (str_strip c))))"

text \<open>Lines 91 to 95: everything between the key check and the model call.\<close>

definition response_inputs :: "string \<Rightarrow> world \<Rightarrow> exn + (pydict \<times> string)" where
  "response_inputs sidecar_path w =
     seq (load_json sidecar_path w) (\<lambda>root'.
     seq (extract_nlu_weather root') (\<lambda>(nlu, weather).
     seq (build_merged_context nlu weather) (\<lambda>mc.
     seq (response_city nlu weather) (\<lambda>city.
     case mc of PDict merged_context \<Rightarrow> Inr (merged_context, city)
              | _ \<Rightarrow> Inl (Exn TypeError ''merged context is not a dict'')))))"

definition generate_travel_response ::
    "env \<Rightarrow> string \<Rightarrow> string \<Rightarrow> string option \<Rightarrow> world \<Rightarrow> (exn + pydict) \<times> world" where
  "generate_travel_response env trace_id sidecar_path api_key w =
     (let key = opt_or (opt_or api_key (OPENAI_API_KEY env)) (GOOGLE_API_KEY env) in
      if \<not> opt_truthy key then (Inl (Exn RuntimeError ''No API key provided for chatbot''), w)
      else
        case response_inputs sidecar_path w of
          Inl e \<Rightarrow> (Inl e, w)
        | Inr (merged_context, city) \<Rightarrow>
            let (r, w1) = call_model_generate env (the key) system_prompt
                            (user_prompt env merged_context) w;
                (response_text, error_note) =
                   (case r of
                      Inr t \<Rightarrow> (t, PNone)
                    | Inl e \<Rightarrow> ('''', PStr (''chatbot_failed: '' @ exn_str e)));
                (now, w2) = read_clock env w1
            in (Inr [
                  (''trace_id'', PStr trace_id),
                  (''city'', PStr city),
                  (''response_text'', PStr response_text),
                  (''merged_context'', PDict merged_context),
                  (''generated_at'', PStr (isoformat env (now - now mod 1000000) @ ''Z'')),
                  (''response_language'', PStr ''en''),
                  (''tts'', PNone),
                  (''error'', error_note)], w2))"

section \<open>main.py: the response entry point\<close>

definition get_chatbot_response :: "env \<Rightarrow> string \<Rightarrow> world \<Rightarrow> (exn + pydict) \<times> world" where
  "get_chatbot_response env trace_id w =
     (let sidecar = stt_sidecar_path env trace_id in
      if files w sidecar = None
      then (Inr [(''trace_id'', PStr trace_id), (''status'', PStr ''pending'')], w)
      else
        case generate_travel_response env trace_id sidecar None w of
          (Inr out, w') \<Rightarrow> (Inr out, w')
        | (Inl e, w') \<Rightarrow>
            (Inl (Exn (HTTPException 500) (''chatbot_failed: '' @ exn_str e)), w'))"

section \<open>weather\_agent.py\<close>

text \<open>Subscripts: \<open>x[0]\<close> and \<open>x["key"]\<close>, with the exceptions Python raises.\<close>

fun py_item0 :: "pyval \<Rightarrow> exn + pyval" where
  "py_item0 (PList (x # xs)) = Inr x"
| "py_item0 (PList []) = Inl (Exn IndexError ''list index out of range'')"
| "py_item0 (PStr (c # cs)) = Inr (PStr [c])"
| "py_item0 (PStr []) = Inl (Exn IndexError ''string index out of range'')"
| "py_item0 (PDict d) = Inl (Exn KeyError ''0'')"
| "py_item0 v = Inl (Exn TypeError ''object is not subscriptable'')"

fun py_item :: "pyval \<Rightarrow> string \<Rightarrow> exn + pyval" where
  "py_item (PDict d) k =
     (case map_of d k of
        Some v \<Rightarrow> Inr v
      | None \<Rightarrow> Inl (Exn KeyError ([CHR 0x27] @ k @ [CHR 0x27])))"
| "py_item (PList xs) k = Inl (Exn TypeError ''list indices must be integers or slices, not str'')"
| "py_item (PStr s) k = Inl (Exn TypeError ''string indices must be integers, not str'')"
| "py_item v k = Inl (Exn TypeError ''object is not subscriptable'')"

definition error_dict :: "string \<Rightarrow> pyval" where
  "error_dict msg = PDict [(''error'', PStr msg)]"

text \<open>One candidate string \<open>f"{g.get('name','')}, {g.get('country','')}"\<close>.\<close>

definition candidate_string :: "env \<Rightarrow> pyval \<Rightarrow> exn + string" where
  "candidate_string env g =
     seq (py_get g ''name'' (PStr '''')) (\<lambda>name.
     seq (py_get g ''country'' (PStr '''')) (\<lambda>country.
     Inr (py_str (py_render env) name @ '', '' @ py_str (py_render env) country)))"

fun candidate_strings :: "env \<Rightarrow> pyval list \<Rightarrow> exn + string list" where
  "candidate_strings env [] = Inr []"
| "candidate_strings env (g # gs) =
     seq (candidate_string env g) (\<lambda>c.
     seq (candidate_strings env gs) (\<lambda>cs. Inr (c # cs)))"

text \<open>The elements a \<open>for g in resp\<close> runs over: the items of a list, the keys of a dict,
  the characters of a string; anything else is not iterable.\<close>

fun py_iter :: "pyval \<Rightarrow> exn + pyval list" where
  "py_iter (PList xs) = Inr xs"
| "py_iter (PDict d) = Inr (map (\<lambda>kv. PStr (fst kv)) d)"
| "py_iter (PStr s) = Inr (map (\<lambda>c. PStr [c]) s)"
| "py_iter v = Inl (Exn TypeError ''object is not iterable'')"

definition get_candidate_locations :: "env \<Rightarrow> string \<Rightarrow> world \<Rightarrow> string list \<times> world" where
  "get_candidate_locations env location w =
     (let r = http_geo env (length (events w)) location 5 (OPENWEATHER_API_KEY env);
          w1 = emit (EvHttpGeo location 5) w
      in case seq r (\<lambda>resp. seq (py_iter resp) (candidate_strings env)) of
           Inr cs \<Rightarrow> (cs, w1)
         | Inl e \<Rightarrow> ([], w1))"

text \<open>Step 1 and step 2 of \<open>extract_location\<close>: the first entity labelled GPE or LOC,
  else the phrase captured by the regular expression.\<close>

definition ner_location :: "env \<Rightarrow> string \<Rightarrow> string option" where
  "ner_location env query =
     (case nlp env of
        None \<Rightarrow> None
      | Some run \<Rightarrow>
          (case find (\<lambda>ent. fst ent = ''GPE'' \<or> fst ent = ''LOC'') (run query) of
             None \<Rightarrow> None
           | Some ent \<Rightarrow> Some (str_strip (snd ent))))"

definition raw_location :: "env \<Rightarrow> string \<Rightarrow> string option" where
  "raw_location env query =
     (let location = ner_location env query in
      if \<not> opt_truthy location
      then (case re_search_location env query of
              Some g \<Rightarrow> Some (str_strip g)
            | None \<Rightarrow> location)
      else location)"

definition extract_location :: "env \<Rightarrow> string \<Rightarrow> world \<Rightarrow> string option \<times> world" where
  "extract_location env query w =
     (let location = raw_location env query in
      if \<not> opt_truthy location then (None, w)
      else
        let (candidates, w1) = get_candidate_locations env (the location) w in
        if candidates \<noteq> []
        then (case extractOne env (the location) candidates 70 of
                Some best_match \<Rightarrow> (Some (split_comma_first (fst best_match)), w1)
              | None \<Rightarrow> (location, w1))
        else (location, w1))"

definition opt_str :: "string option \<Rightarrow> pyval" where
  "opt_str x = (case x of None \<Rightarrow> PNone | Some s \<Rightarrow> PStr s)"

definition one_day :: int where
  "one_day = 86400 * 1000000"

text \<open>Lines 97 to 108: the date of the query.\<close>

definition parse_date :: "env \<Rightarrow> string \<Rightarrow> world \<Rightarrow> string option \<times> world" where
  "parse_date env query w =
     (let parsed_date_iso =
            (case dateparser_parse env query of
               Some parsed \<Rightarrow> Some (strftime_ymd env parsed)
             | None \<Rightarrow> None);
          ql = str_lower query
      in if str_contains ''today'' ql \<and> \<not> opt_truthy parsed_date_iso
         then (let (now, w1) = read_clock env w in (Some (strftime_ymd env now), w1))
         else if str_contains ''tomorrow'' ql \<and> \<not> opt_truthy parsed_date_iso
         then (let (now, w1) = read_clock env w in (Some (strftime_ymd env (now + one_day)), w1))
         else (parsed_date_iso, w))"

definition nlu_parser_travel :: "env \<Rightarrow> string \<Rightarrow> world \<Rightarrow> pydict \<times> world" where
  "nlu_parser_travel env query w =
     (let (location, w1) = extract_location env query w;
          (parsed_date_iso, w2) = parse_date env query w1;
          (now, w3) = read_clock env w2
      in ([(''intent'', PStr ''get_weather_travel_advice''),
           (''entities'', PDict [(''location'', opt_str location),
                                 (''date'', opt_str parsed_date_iso)]),
           (''slots'', PDict [(''theme'', PStr ''travel'')]),
           (''dialog_metadata'', PDict [(''original_query'', PStr query),
                                        (''language'', PStr ''en''),
                                        (''timestamp'', PStr (isoformat_utc env now))])],
          w3))"

text \<open>\<open>resp.get(k1, {}).get(k2)\<close>.\<close>

definition get2 :: "pyval \<Rightarrow> string \<Rightarrow> string \<Rightarrow> exn + pyval" where
  "get2 resp k1 k2 = seq (py_get resp k1 (PDict [])) (\<lambda>m. py_get m k2 PNone)"

text \<open>\<open>(resp.get("weather") or [{}])[0].get(k)\<close>.\<close>

definition weather0 :: "pyval \<Rightarrow> string \<Rightarrow> exn + pyval" where
  "weather0 resp k =
     seq (py_get resp ''weather'' PNone) (\<lambda>ws.
     seq (py_item0 (py_or ws (PList [PDict []]))) (\<lambda>w0. py_get w0 k PNone))"

text \<open>Lines 153 to 168: the structured result built from the provider's payload.\<close>

definition weather_result :: "env \<Rightarrow> pyval \<Rightarrow> exn + pyval" where
  "weather_result env resp =
     seq (py_get resp ''name'' PNone) (\<lambda>name.
     seq (get2 resp ''sys'' ''country'') (\<lambda>country.
     seq (weather0 resp ''main'') (\<lambda>weather_main.
     seq (weather0 resp ''description'') (\<lambda>weather_description.
     seq (get2 resp ''main'' ''temp'') (\<lambda>temp.
     seq (get2 resp ''main'' ''feels_like'') (\<lambda>feels_like.
     seq (get2 resp ''main'' ''temp_min'') (\<lambda>temp_min.
     seq (get2 resp ''main'' ''temp_max'') (\<lambda>temp_max.
     seq (get2 resp ''main'' ''humidity'') (\<lambda>humidity.
     seq (get2 resp ''wind'' ''speed'') (\<lambda>wind_speed.
     seq (py_get resp ''rain'' PNone) (\<lambda>rain.
     seq (if truthy rain
          then seq (py_get resp ''rain'' (PDict [])) (\<lambda>m. py_get m ''1h'' (PInt 0))
          else Inr (PInt 0)) (\<lambda>rain_1h.
     seq (get2 resp ''clouds'' ''all'') (\<lambda>cloudiness.
     seq (py_get resp ''dt'' PNone) (\<lambda>dt.
     seq (if truthy dt
          then seq (utcfromtimestamp env dt) (\<lambda>t. Inr (PStr (isoformat_utc env t)))
          else Inr PNone) (\<lambda>timestamp.
     Inr (PDict [
       (''location'', name),
       (''country'', country),
       (''weather_main'', weather_main),
       (''weather_description'', weather_description),
       (''temperature_c'', temp),
       (''feels_like_c'', feels_like),
       (''temp_min_c'', temp_min),
       (''temp_max_c'', temp_max),
       (''humidity'', humidity),
       (''wind_speed'', wind_speed),
       (''rain_1h'', rain_1h),
       (''cloudiness'', cloudiness),
       (''timestamp'', timestamp),
       (''raw'', resp)]))))))))))))))))"

definition fetch_weather :: "env \<Rightarrow> pyval \<Rightarrow> world \<Rightarrow> (exn + pyval) \<times> world" where
  "fetch_weather env location w =
     (if \<not> truthy location then (Inr (error_dict ''No location provided''), w)
      else if \<not> opt_truthy (OPENWEATHER_API_KEY env)
      then (Inr (error_dict ''OPENWEATHER_API_KEY not set''), w)
      else
        let q = py_str (py_render env) location;
            r = http_geo env (length (events w)) q 1 (OPENWEATHER_API_KEY env);
            w1 = emit (EvHttpGeo q 1) w
        in case r of
             Inl e \<Rightarrow> (Inr (error_dict (''geocoding_failed: '' @ exn_str e)), w1)
           | Inr geo_resp \<Rightarrow>
               if \<not> truthy geo_resp
               then (Inr (error_dict (''Location '' @ [CHR 0x27] @ q @ [CHR 0x27] @ '' not found'')), w1)
               else
                 (case seq (py_item0 geo_resp) (\<lambda>g.
                       seq (py_item g ''lat'') (\<lambda>lat.
                       seq (py_item0 geo_resp) (\<lambda>g'.
                       seq (py_item g' ''lon'') (\<lambda>lon. Inr (lat, lon))))) of
                    Inl e \<Rightarrow> (Inr (error_dict (''geocoding_failed: '' @ exn_str e)), w1)
                  | Inr (lat, lon) \<Rightarrow>
                      let r2 = http_weather env (length (events w1)) lat lon (OPENWEATHER_API_KEY env);
                          w2 = emit (EvHttpWeather lat lon) w1
                      in (case r2 of
                            Inl e \<Rightarrow> (Inr (error_dict (''weather_fetch_failed: '' @ exn_str e)), w2)
                          | Inr resp \<Rightarrow> (weather_result env resp, w2))))"

definition travel_weather_agent :: "env \<Rightarrow> string \<Rightarrow> world \<Rightarrow> (exn + pydict) \<times> world" where
  "travel_weather_agent env query w =
     (let (nlu, w1) = nlu_parser_travel env query w in
      case seq (py_get (PDict nlu) ''entities'' (PDict [])) (\<lambda>en. py_get en ''location'' PNone) of
        Inl e \<Rightarrow> (Inl e, w1)
      | Inr location \<Rightarrow>
          if truthy location
          then (case fetch_weather env location w1 of
                  (Inl e, w2) \<Rightarrow> (Inl e, w2)
                | (Inr weather, w2) \<Rightarrow> (Inr [(''nlu'', PDict nlu), (''weather'', weather)], w2))
          else (Inr [(''nlu'', PDict nlu),
                     (''weather'', error_dict ''no_location_extracted'')], w1))"

section \<open>stt\_helpers.py\<close>

definition transcribe_with_azure ::
    "env \<Rightarrow> string \<Rightarrow> string list \<Rightarrow> world \<Rightarrow> (exn + pydict) \<times> world" where
  "transcribe_with_azure env wav_path languages w =
     (if \<not> opt_truthy (AZURE_KEY env) \<or> \<not> opt_truthy (AZURE_REGION env)
      then (Inl (Exn RuntimeError
                  ''Azure credentials not set in AZURE_SPEECH_KEY / AZURE_SPEECH_REGION''), w)
      else
        let r = recognize_once env (length (events w)) wav_path languages;
            w1 = emit (EvRecognize wav_path languages) w
        in case r of
             Inl e \<Rightarrow> (Inl e, w1)
           | Inr res \<Rightarrow>
               (case stt_reason res of
                  RecognizedSpeech \<Rightarrow>
                    let detected =
                          (case stt_json res of
                             None \<Rightarrow> PNone
                           | Some payload \<Rightarrow>
                               (case get2 payload ''PrimaryLanguage'' ''Language'' of
                                  Inr v \<Rightarrow> v
                                | Inl e \<Rightarrow> PNone))
                    in (Inr [(''text'', PStr (stt_text res)),
                             (''confidence'', PNone),
                             (''provider'', PStr ''azure-speech''),
                             (''detected_language'', detected)], w1)
                | NoMatch \<Rightarrow>
                    (Inr [(''text'', PStr ''''),
                          (''confidence'', PFloat 0),
                          (''provider'', PStr ''azure-speech''),
                          (''detected_language'', PNone)], w1)
                | Canceled \<Rightarrow>
                    (Inl (Exn RuntimeError (''Azure STT failed: '' @ stt_error_details res)), w1)))"

definition translate_to_english ::
    "env \<Rightarrow> pyval \<Rightarrow> string option \<Rightarrow> world \<Rightarrow> (exn + string) \<times> world" where
  "translate_to_english env text' from_lang w =
     (if \<not> opt_truthy (TRANSLATOR_KEY env) \<or> \<not> opt_truthy (TRANSLATOR_REGION env)
      then (Inl (Exn RuntimeError
              ''Azure Translator credentials not set (AZURE_TRANSLATOR_KEY / AZURE_TRANSLATOR_REGION)''), w)
      else (translator_post env (length (events w)) text'
              (if opt_truthy from_lang then from_lang else None),
            emit (EvTranslate text') w))"

text \<open>\<open>result.setdefault("warnings", []).append(note)\<close>.\<close>

definition append_warning :: "string \<Rightarrow> pydict \<Rightarrow> exn + pydict" where
  "append_warning note result =
     (case map_of result ''warnings'' of
        None \<Rightarrow> Inr (AList.update ''warnings'' (PList [PStr note]) result)
      | Some (PList ws) \<Rightarrow> Inr (AList.update ''warnings'' (PList (ws @ [PStr note])) result)
      | Some v \<Rightarrow> Inl (Exn AttributeError ''object has no attribute append''))"

fun py_lower :: "pyval \<Rightarrow> exn + string" where
  "py_lower (PStr s) = Inr (str_lower s)"
| "py_lower v = Inl (Exn AttributeError ''object has no attribute lower'')"

text \<open>Lines 186 to 197: the translation step. It returns the record and the text that
  later stages use (\<open>english_text\<close>).\<close>

definition translate_step ::
    "env \<Rightarrow> pydict \<Rightarrow> world \<Rightarrow> (exn + (pydict \<times> pyval)) \<times> world" where
  "translate_step env result w =
     (let english_text = dict_get result ''text'' PNone;
          det = py_or (dict_get result ''detected_language'' PNone) (PStr '''');
          is_ja = (if truthy english_text
                   then seq (py_lower det) (\<lambda>d. Inr (startswith d ''ja''))
                   else Inr False)
      in case is_ja of
           Inl e \<Rightarrow> (Inl e, w)
         | Inr True \<Rightarrow>
             (case translate_to_english env english_text (Some ''ja'') w of
                (Inr translated, w1) \<Rightarrow>
                  (Inr (AList.update ''text_en'' (PStr translated) result, PStr translated), w1)
              | (Inl e, w1) \<Rightarrow>
                  (seq (append_warning (''translation_failed:'' @ exn_str e)
                          (AList.update ''text_en'' PNone result))
                       (\<lambda>r. Inr (r, english_text)), w1))
         | Inr False \<Rightarrow> (Inr (AList.update ''text_en'' english_text result, english_text), w))"

text \<open>Lines 205 and 206: \<open>tf.write(english_text if english_text else "")\<close>. Writing
  something that is not a string raises after the file has been opened.\<close>

definition write_text :: "env \<Rightarrow> string \<Rightarrow> pyval \<Rightarrow> world \<Rightarrow> (exn + unit) \<times> world" where
  "write_text env path english_text w =
     (if truthy english_text
      then (case english_text of
              PStr s \<Rightarrow> fs_write env path (PStr s) w
            | _ \<Rightarrow> (case fs_write env path (PStr '''') w of
                      (Inl e, w1) \<Rightarrow> (Inl e, w1)
                    | (Inr u, w1) \<Rightarrow> (Inl (Exn TypeError ''write() argument must be str''), w1)))
      else fs_write env path (PStr '''') w)"

text \<open>Lines 219 to 238: attaching what the agent returned.\<close>

definition attach_agent_output :: "pyval \<Rightarrow> pydict \<Rightarrow> pydict" where
  "attach_agent_output agent_output result =
     (let r1 = AList.update ''agent_raw'' agent_output result in
      case agent_output of
        PDict d \<Rightarrow>
          let nlu = (if map_of d ''NLU'' \<noteq> None then dict_get d ''NLU'' PNone
                     else if map_of d ''nlu'' \<noteq> None then dict_get d ''nlu'' PNone
                     else dict_get d ''nlu'' PNone);
              weather = (if map_of d ''Weather'' \<noteq> None then dict_get d ''Weather'' PNone
                         else if map_of d ''weather'' \<noteq> None then dict_get d ''weather'' PNone
                         else PNone)
          in AList.update ''weather'' weather (AList.update ''nlu'' nlu r1)
      | _ \<Rightarrow>
          AList.update ''weather'' (error_dict ''agent_returned_non_dict'')
            (AList.update ''nlu'' (error_dict ''agent_returned_non_dict'') r1))"

text \<open>Line 211: \<open>result.get("text_en") or result.get("text") or ""\<close>.\<close>

definition text_for_agent :: "pydict \<Rightarrow> pyval" where
  "text_for_agent result =
     py_or (py_or (dict_get result ''text_en'' PNone) (dict_get result ''text'' PNone))
           (PStr '''')"

text \<open>Lines 211 to 246: the agent step, which never aborts the pipeline unless the
  warning list itself cannot be appended to.\<close>

definition agent_step :: "env \<Rightarrow> pydict \<Rightarrow> world \<Rightarrow> (exn + pydict) \<times> world" where
  "agent_step env result w =
     (let (r, w1) = (case text_for_agent result of
                       PStr s \<Rightarrow> travel_weather_agent env s w
                     | _ \<Rightarrow> (Inl (Exn TypeError ''query is not a string''), w))
      in case r of
           Inr agent_output \<Rightarrow> (Inr (attach_agent_output (PDict agent_output) result), w1)
         | Inl e \<Rightarrow>
             (seq (append_warning (''agent_failed:'' @ exn_str e) result) (\<lambda>r1.
              Inr (AList.update ''weather'' (error_dict (''agent_failed:'' @ exn_str e))
                    (AList.update ''nlu'' (error_dict (''agent_failed:'' @ exn_str e))
                      (AList.update ''agent_raw'' (error_dict (exn_str e)) r1)))), w1))"

text \<open>Lines 175 to 184: speech to text and the first record.\<close>

definition stt_step ::
    "env \<Rightarrow> string \<Rightarrow> string list \<Rightarrow> world \<Rightarrow> (exn + pydict) \<times> world" where
  "stt_step env trace_id languages w =
     (let orig_wav = path_join (UPLOAD_DIR env) (trace_id @ ''.wav'') in
      if files w orig_wav = None
      then (Inl (Exn FileNotFoundError ''trace_id audio not found''), w)
      else
        case transcribe_with_azure env orig_wav languages w of
          (Inl e, w1) \<Rightarrow> (Inl e, w1)
        | (Inr stt, w1) \<Rightarrow>
            let (now, w2) = read_clock env w1
            in (Inr [(''trace_id'', PStr trace_id),
                     (''text'', dict_get stt ''text'' PNone),
                     (''confidence'', dict_get stt ''confidence'' PNone),
                     (''provider'', dict_get stt ''provider'' PNone),
                     (''detected_language'', dict_get stt ''detected_language'' PNone),
                     (''processed_at'', PInt (now div 1000000))], w2))"

text \<open>Lines 199 to 252: the two checkpoints around the text file and the agent.\<close>

definition finish_trace ::
    "env \<Rightarrow> string \<Rightarrow> pydict \<Rightarrow> pyval \<Rightarrow> world \<Rightarrow> (exn + pydict) \<times> world" where
  "finish_trace env trace_id result english_text w =
     (case fs_write env (stt_sidecar_path env trace_id) (PDict result) w of
        (Inl e, w1) \<Rightarrow> (Inl e, w1)
      | (Inr u, w1) \<Rightarrow>
          let text_path = path_join (UPLOAD_DIR env) (trace_id @ ''.txt'') in
          (case write_text env text_path english_text w1 of
             (Inl e, w2) \<Rightarrow> (Inl e, w2)
           | (Inr u, w2) \<Rightarrow>
               (case agent_step env (AList.update ''text_file'' (PStr text_path) result) w2 of
                  (Inl e, w3) \<Rightarrow> (Inl e, w3)
                | (Inr result', w3) \<Rightarrow>
                    (case fs_write env (stt_sidecar_path env trace_id) (PDict result') w3 of
                       (Inl e, w4) \<Rightarrow> (Inl e, w4)
                     | (Inr u, w4) \<Rightarrow> (Inr result', w4)))))"

definition process_trace ::
    "env \<Rightarrow> string \<Rightarrow> string list \<Rightarrow> world \<Rightarrow> (exn + pydict) \<times> world" where
  "process_trace env trace_id languages w =
     (case stt_step env trace_id languages w of
        (Inl e, w1) \<Rightarrow> (Inl e, w1)
      | (Inr result, w1) \<Rightarrow>
          (case translate_step env result w1 of
             (Inl e, w2) \<Rightarrow> (Inl e, w2)
           | (Inr (result', english_text), w2) \<Rightarrow>
               finish_trace env trace_id result' english_text w2))"

subsection \<open>The background wrapper\<close>

text \<open>Lines 279 to 289: the response fields merged under \<open>response\<close>, and the status.\<close>

definition merge_response :: "pydict \<Rightarrow> pydict \<Rightarrow> exn + pydict" where
  "merge_response bot_out result =
     (let fields = [(''text'', dict_get bot_out ''response_text'' PNone),
                    (''generated_at'', dict_get bot_out ''generated_at'' PNone),
                    (''response_language'', dict_get bot_out ''response_language'' PNone),
                    (''tts'', dict_get bot_out ''tts'' PNone),
                    (''error'', dict_get bot_out ''error'' PNone)]
      in case map_of result ''response'' of
           None \<Rightarrow>
             Inr (AList.update ''status'' (PStr ''done'')
                   (AList.update ''response'' (PDict (AList.updates (map fst fields) (map snd fields) [])) result))
         | Some (PDict old) \<Rightarrow>
             Inr (AList.update ''status'' (PStr ''done'')
                   (AList.update ''response'' (PDict (AList.updates (map fst fields) (map snd fields) old)) result))
         | Some v \<Rightarrow> Inl (Exn AttributeError ''object has no attribute update''))"

text \<open>Lines 305 to 314: the record written when the pipeline itself failed.\<close>

definition write_failed :: "env \<Rightarrow> string \<Rightarrow> exn \<Rightarrow> world \<Rightarrow> (exn + unit) \<times> world" where
  "write_failed env trace_id e w =
     (let (now, w1) = read_clock env w;
          err = [(''trace_id'', PStr trace_id),
                 (''status'', PStr ''failed''),
                 (''error'', PStr (exn_str e)),
                 (''processed_at'', PInt (now div 1000000))]
      in fs_write env (stt_sidecar_path env trace_id) (PDict err) w1)"

text \<open>Lines 295 to 303: the handler of a failed response step. An exception raised in
  the handler reaches the outer handler.\<close>

definition chatbot_failed :: "env \<Rightarrow> string \<Rightarrow> pydict \<Rightarrow> exn \<Rightarrow> world \<Rightarrow> (exn + unit) \<times> world" where
  "chatbot_failed env trace_id result bot_exc w =
     (case append_warning (''chatbot_failed:'' @ exn_str bot_exc) result of
        Inl e \<Rightarrow> write_failed env trace_id e w
      | Inr r1 \<Rightarrow>
          (case fs_write env (stt_sidecar_path env trace_id)
                  (PDict (AList.update ''status'' (PStr ''agent_done_chatbot_failed'') r1)) w of
             (Inl e, w1) \<Rightarrow> write_failed env trace_id e w1
           | (Inr u, w1) \<Rightarrow> (Inr (), w1)))"

text \<open>Lines 268 to 293: the response step on the record the pipeline returned. A failed
  write of the merged record is handled like a failed response, on the record as it then
  is (the response and the status are already in it).\<close>

definition respond :: "env \<Rightarrow> string \<Rightarrow> pydict \<Rightarrow> world \<Rightarrow> (exn + unit) \<times> world" where
  "respond env trace_id result w =
     (let api_key = opt_or (OPENAI_API_KEY env) (GOOGLE_API_KEY env) in
      case generate_travel_response env trace_id (stt_sidecar_path env trace_id) api_key w of
        (Inl bot_exc, w1) \<Rightarrow> chatbot_failed env trace_id result bot_exc w1
      | (Inr bot_out, w1) \<Rightarrow>
          (case merge_response bot_out result of
             Inl bot_exc \<Rightarrow> chatbot_failed env trace_id result bot_exc w1
           | Inr merged \<Rightarrow>
               (case fs_write env (stt_sidecar_path env trace_id) (PDict merged) w1 of
                  (Inl bot_exc, w2) \<Rightarrow> chatbot_failed env trace_id merged bot_exc w2
                | (Inr u, w2) \<Rightarrow> (Inr (), w2))))"

definition background_process_trace ::
    "env \<Rightarrow> string \<Rightarrow> string list \<Rightarrow> world \<Rightarrow> (exn + unit) \<times> world" where
  "background_process_trace env trace_id languages w =
     (case process_trace env trace_id languages w of
        (Inl e, w1) \<Rightarrow> write_failed env trace_id e w1
      | (Inr result, w1) \<Rightarrow> respond env trace_id result w1)"

section \<open>Concrete environments and worlds\<close>

text \<open>
  A small world in which every service answers: the recogniser hears an English
  question about Tokyo, the geocoder knows the place it is asked for, the weather
  provider reports clear sky and the model answers with one sentence. The theorems
  below are instantiated on it and on variations of it.
\<close>

definition tokyo_weather :: pyval where
  "tokyo_weather = PDict [
     (''name'', PStr ''Tokyo''),
     (''sys'', PDict [(''country'', PStr ''JP'')]),
     (''weather'', PList [PDict [(''main'', PStr ''Clear''), (''description'', PStr ''clear sky'')]]),
     (''main'', PDict [(''temp'', PInt 21), (''feels_like'', PInt 20), (''temp_min'', PInt 18),
                       (''temp_max'', PInt 23), (''humidity'', PInt 40)]),
     (''wind'', PDict [(''speed'', PInt 3)]),
     (''clouds'', PDict [(''all'', PInt 0)]),
     (''dt'', PInt 1700000000)]"

definition env0 :: env where
  "env0 = \<lparr>
     OPENWEATHER_API_KEY = Some ''owm'',
     AZURE_KEY = Some ''az'',
     AZURE_REGION = Some ''japaneast'',
     TRANSLATOR_KEY = Some ''tr'',
     TRANSLATOR_REGION = Some ''japaneast'',
     OPENAI_API_KEY = None,
     GOOGLE_API_KEY = Some ''g'',
     UPLOAD_DIR = ''uploads'',
     nlp = Some (\<lambda>q. if str_contains ''Tokyo'' q then [(''DATE'', ''today''), (''GPE'', ''Tokyo'')] else []),
     re_search_location = (\<lambda>q. None),
     extractOne = (\<lambda>q cs cutoff. case find (\<lambda>c. startswith c q) cs of
                                       Some c \<Rightarrow> Some (c, 90, 0) | None \<Rightarrow> None),
     dateparser_parse = (\<lambda>q. None),
     strftime_ymd = (\<lambda>t. if t < one_day then ''1970-01-01'' else ''1970-01-02''),
     isoformat = (\<lambda>t. ''1970-01-01T00:00:00''),
     isoformat_utc = (\<lambda>t. ''1970-01-01T00:00:00+00:00''),
     utcfromtimestamp = (\<lambda>v. case v of PInt n \<Rightarrow> Inr (n * 1000000)
                                  | _ \<Rightarrow> Inl (Exn TypeError ''an integer is required'')),
     json_dumps = (\<lambda>v. ''{}''),
     py_render = (\<lambda>v. ''None''),
     clock = (\<lambda>n. 0),
     fs_fault = (\<lambda>n p. None),
     http_geo = (\<lambda>n q limit key. Inr (PList [PDict [(''name'', PStr q), (''country'', PStr ''JP''),
                                                    (''lat'', PInt 35), (''lon'', PInt 139)]])),
     http_weather = (\<lambda>n lat lon key. Inr tokyo_weather),
     recognize_once = (\<lambda>n p langs. Inr \<lparr>
        stt_reason = RecognizedSpeech,
        stt_text = ''weather in Tokyo today'',
        stt_json = Some (PDict [(''PrimaryLanguage'', PDict [(''Language'', PStr ''en-US'')])]),
        stt_error_details = ''''\<rparr>),
     translator_post = (\<lambda>n t f. Inr ''weather in Tokyo today''),
     generate_content = (\<lambda>n k s u. Inr ''Clear sky in Tokyo today.'')\<rparr>"

text \<open>The world before anything ran, and the world in which the audio of trace \<open>t1\<close>
  has been ingested.\<close>

definition world0 :: world where
  "world0 = \<lparr>files = (\<lambda>p. None), events = []\<rparr>"

definition world_audio :: world where
  "world_audio = \<lparr>files = (\<lambda>p. if p = ''uploads/t1.wav'' then Some (PStr ''RIFF'') else None),
                  events = []\<rparr>"

text \<open>The world in which the sidecar of trace \<open>t1\<close> is the record of a failed run.\<close>

definition world_failed :: world where
  "world_failed = \<lparr>
     files = (\<lambda>p. if p = ''uploads/t1.json''
                  then Some (PDict [(''trace_id'', PStr ''t1''), (''status'', PStr ''failed''),
                                    (''error'', PStr ''trace_id audio not found''),
                                    (''processed_at'', PInt 0)])
                  else None),
     events = []\<rparr>"

text \<open>The world in which the pipeline has left a complete sidecar for trace \<open>t1\<close>.\<close>

definition sidecar_ready :: pydict where
  "sidecar_ready = [
     (''trace_id'', PStr ''t1''),
     (''text'', PStr ''weather in Tokyo today''),
     (''text_en'', PStr ''weather in Tokyo today''),
     (''nlu'', PDict [
        (''intent'', PStr ''get_weather_travel_advice''),
        (''entities'', PDict [(''location'', PStr ''Tokyo''), (''date'', PStr ''1970-01-01'')]),
        (''slots'', PDict [(''theme'', PStr ''travel'')]),
        (''dialog_metadata'', PDict [(''original_query'', PStr ''weather in Tokyo today'')])]),
     (''weather'', PDict [(''location'', PStr ''Tokyo''), (''country'', PStr ''JP''),
                          (''temperature_c'', PInt 21)])]"

definition world_ready :: world where
  "world_ready = \<lparr>files = (\<lambda>p. if p = ''uploads/t1.json'' then Some (PDict sidecar_ready) else None),
                  events = []\<rparr>"

text \<open>The environment in which the model refuses every request.\<close>

definition env_llm_down :: env where
  "env_llm_down = env0\<lparr>generate_content := (\<lambda>n k s u. Inl (Exn ServiceError ''quota exceeded''))\<rparr>"

text \<open>The environment in which the geocoder answers with an entry that has a country
  code but no name, the recogniser of entities finds \<open>US\<close>, and the fuzzy matcher accepts
  the first candidate (rapidfuzz scores \<open>US\<close> against \<open>, US\<close> well above 70).\<close>

definition env_nameless :: env where
  "env_nameless = env0\<lparr>
     nlp := Some (\<lambda>q. [(''GPE'', ''US'')]),
     extractOne := (\<lambda>q cs cutoff. case cs of [] \<Rightarrow> None | c # rest \<Rightarrow> Some (c, 90, 0)),
     http_geo := (\<lambda>n q limit key. Inr (PList [PDict [(''country'', PStr ''US'')]]))\<rparr>"

text \<open>The environments of two runs that go wrong: a recogniser that reports Japanese
  speech with an empty transcript while the translator has no credentials, and a file
  system that refuses to write the text file of trace \<open>t1\<close>.\<close>

definition env_silent_ja :: env where
  "env_silent_ja = env0\<lparr>
     TRANSLATOR_KEY := None,
     recognize_once := (\<lambda>n p langs. Inr \<lparr>
        stt_reason = RecognizedSpeech,
        stt_text = '''',
        stt_json = Some (PDict [(''PrimaryLanguage'', PDict [(''Language'', PStr ''ja-JP'')])]),
        stt_error_details = ''''\<rparr>)\<rparr>"

definition env_txt_refused :: env where
  "env_txt_refused = env0\<lparr>
     fs_fault := (\<lambda>n p. if p = ''uploads/t1.txt''
                        then Some (Exn OSError ''Permission denied'') else None)\<rparr>"




text \<open>The environment in which the recogniser hears Japanese (it reports the language
  as \<open>JA-jp\<close>) and the translator answers, and the same with a translator that has no
  credentials.\<close>

definition env_ja :: env where
  "env_ja = env0\<lparr>
     recognize_once := (\<lambda>n p langs. Inr \<lparr>
        stt_reason = RecognizedSpeech,
        stt_text = ''Tokyo no tenki wa'',
        stt_json = Some (PDict [(''PrimaryLanguage'', PDict [(''Language'', PStr ''JA-jp'')])]),
        stt_error_details = ''''\<rparr>)\<rparr>"

definition env_ja_untranslated :: env where
  "env_ja_untranslated = env_ja\<lparr>TRANSLATOR_KEY := None\<rparr>"

definition ja_record :: pydict where
  "ja_record = [
     (''trace_id'', PStr ''t1''),
     (''text'', PStr ''Tokyo no tenki wa''),
     (''confidence'', PNone),
     (''provider'', PStr ''azure-speech''),
     (''detected_language'', PStr ''JA-jp''),
     (''processed_at'', PInt 0)]"

definition world_heard :: world where
  "world_heard =
     emit EvClock (emit (EvRecognize ''uploads/t1.wav'' [''en-US'', ''ja-JP'']) world_audio)"

text \<open>The first checkpoint of trace \<open>t1\<close> in the world where every service answers, the
  environment without a key for the model, and the record of a recogniser that reports
  Japanese speech with an empty transcript.\<close>

definition first_checkpoint :: pydict where
  "first_checkpoint = [
     (''trace_id'', PStr ''t1''),
     (''text'', PStr ''weather in Tokyo today''),
     (''confidence'', PNone),
     (''provider'', PStr ''azure-speech''),
     (''detected_language'', PStr ''en-US''),
     (''processed_at'', PInt 0),
     (''text_en'', PStr ''weather in Tokyo today'')]"

definition env_keyless :: env where
  "env_keyless = env0\<lparr>GOOGLE_API_KEY := None\<rparr>"

definition silent_record :: pydict where
  "silent_record = [
     (''trace_id'', PStr ''t1''),
     (''text'', PStr ''''),
     (''confidence'', PNone),
     (''provider'', PStr ''azure-speech''),
     (''detected_language'', PStr ''ja-JP''),
     (''processed_at'', PInt 0)]"

section \<open>Predicates used to state the properties\<close>

text \<open>
  A field of a sidecar record is absent or empty for the response generator when the
  record's own field is falsy and \<open>agent_raw\<close> has no truthy field of that name either
  (\<open>agent_raw\<close> missing, not a dict, or a dict without it).
\<close>

definition absent_or_empty :: "pydict \<Rightarrow> string \<Rightarrow> bool" where
  "absent_or_empty d k \<longleftrightarrow>
     \<not> truthy (dict_get d k PNone) \<and>
     (case map_of d ''agent_raw'' of
        Some (PDict raw) \<Rightarrow> \<not> truthy (dict_get raw k PNone)
      | _ \<Rightarrow> True)"

text \<open>The values written to the file \<open>path\<close>, in order, among some events.\<close>

fun sidecar_writes :: "string \<Rightarrow> event list \<Rightarrow> pyval list" where
  "sidecar_writes path [] = []"
| "sidecar_writes path (EvWrite p v # evs) =
     (if p = path then v # sidecar_writes path evs else sidecar_writes path evs)"
| "sidecar_writes path (ev # evs) = sidecar_writes path evs"

text \<open>The writes to \<open>path\<close> that happened between the world \<open>w\<close> and the later world \<open>w'\<close>.\<close>

definition writes_since :: "string \<Rightarrow> world \<Rightarrow> world \<Rightarrow> pyval list" where
  "writes_since path w w' = sidecar_writes path (drop (length (events w)) (events w'))"

definition warnings_of :: "pydict \<Rightarrow> pyval list" where
  "warnings_of d = (case map_of d ''warnings'' of Some (PList ws) \<Rightarrow> ws | _ \<Rightarrow> [])"

text \<open>
  A written record \<open>b\<close> preserves an earlier one \<open>a\<close>: every field of \<open>a\<close> other than
  \<open>warnings\<close> is in \<open>b\<close> with the same value, and the warnings of \<open>a\<close> are the first
  warnings of \<open>b\<close>, in the same order.
\<close>

definition preserves :: "pyval \<Rightarrow> pyval \<Rightarrow> bool" where
  "preserves a b =
     (case (a, b) of
        (PDict x, PDict y) \<Rightarrow>
          (\<forall>k \<in> set (map fst x). k \<noteq> ''warnings'' \<longrightarrow> map_of y k = map_of x k) \<and>
          take (length (warnings_of x)) (warnings_of y) = warnings_of x
      | _ \<Rightarrow> False)"

text \<open>The record that replaces the sidecar when the pipeline itself failed.\<close>

definition failed_record :: "string \<Rightarrow> string \<Rightarrow> int \<Rightarrow> pyval" where
  "failed_record trace_id msg n =
     PDict [(''trace_id'', PStr trace_id), (''status'', PStr ''failed''),
            (''error'', PStr msg), (''processed_at'', PInt n)]"

text \<open>The world \<open>w'\<close> is a later state of \<open>w\<close>: its events begin with those of \<open>w\<close>.\<close>

definition later :: "world \<Rightarrow> world \<Rightarrow> bool" where
  "later w w' \<longleftrightarrow> take (length (events w)) (events w') = events w"

text \<open>From \<open>w\<close> to the later world \<open>w'\<close>, exactly the values \<open>ws\<close> were written to \<open>path\<close>.\<close>

definition trace_step :: "string \<Rightarrow> world \<Rightarrow> world \<Rightarrow> pyval list \<Rightarrow> bool" where
  "trace_step path w w' ws \<longleftrightarrow> later w w' \<and> writes_since path w w' = ws"

text \<open>The warnings of a record can be appended to: the field is absent or a list.\<close>

definition warnings_ok :: "pydict \<Rightarrow> bool" where
  "warnings_ok d \<longleftrightarrow>
     (case map_of d ''warnings'' of None \<Rightarrow> True | Some (PList ws) \<Rightarrow> True | Some v \<Rightarrow> False)"

text \<open>A record as it is before the text file and the agent: none of the later fields
  is in it yet, and its warnings can be appended to.\<close>

definition early_record :: "pydict \<Rightarrow> bool" where
  "early_record d \<longleftrightarrow>
     warnings_ok d \<and>
     list_all (\<lambda>k. map_of d k = None)
       [''text_file'', ''agent_raw'', ''nlu'', ''weather'', ''response'', ''status'']"

text \<open>A record as the pipeline returns it: the fields of both checkpoints are in it,
  the response and the status are not, and its warnings can be appended to.\<close>

definition pipeline_record :: "pydict \<Rightarrow> bool" where
  "pipeline_record d \<longleftrightarrow>
     warnings_ok d \<and>
     map_of d ''response'' = None \<and> map_of d ''status'' = None \<and>
     list_all (\<lambda>k. map_of d k \<noteq> None)
       [''trace_id'', ''text'', ''confidence'', ''provider'', ''detected_language'',
        ''processed_at'', ''text_en'', ''text_file'', ''agent_raw'', ''nlu'', ''weather'']"

section \<open>Evaluating the string methods\<close>

lemmas strip_eval = str_strip_def str_lstrip_def str_rstrip_def str_strip_set_def strip_chars_def
  py_whitespace_def

section \<open>Events and writes of the operations\<close>

text \<open>
  Every operation only adds events, and only \<open>fs_write\<close> adds a write. The lemmas below
  say, for each operation, which values it writes to a given path.
\<close>

lemma events_emit [simp]: "events (emit ev w) = events w @ [ev]"
  by (simp add: emit_def)

lemma files_emit [simp]: "files (emit ev w) = files w"
  by (simp add: emit_def)

lemma sidecar_writes_append:
  "sidecar_writes p (a @ b) = sidecar_writes p a @ sidecar_writes p b"
  by (induction p a rule: sidecar_writes.induct) simp_all

lemma later_iff: "later w w' \<longleftrightarrow> (\<exists>evs. events w' = events w @ evs)"
  unfolding later_def
  by (metis append_eq_conv_conj)

lemma trace_step_iff:
  "trace_step p w w' ws \<longleftrightarrow> (\<exists>evs. events w' = events w @ evs \<and> sidecar_writes p evs = ws)"
  unfolding trace_step_def writes_since_def later_iff by auto

lemma trace_step_refl: "trace_step p w w []"
  by (simp add: trace_step_iff)

lemma trace_step_trans:
  "trace_step p w w' a \<Longrightarrow> trace_step p w' w'' b \<Longrightarrow> trace_step p w w'' (a @ b)"
  by (auto simp: trace_step_iff sidecar_writes_append)

lemma trace_step_quiet2:
  "trace_step p w w' [] \<Longrightarrow> trace_step p w' w'' b \<Longrightarrow> trace_step p w w'' b"
  using trace_step_trans [of p w w' "[]" w'' b] by simp

lemma read_clock_step: "read_clock env w = (n, w') \<Longrightarrow> trace_step p w w' []"
  by (auto simp: read_clock_def trace_step_iff)

lemma fs_write_step:
  "fs_write env path v w = (r, w') \<Longrightarrow>
     trace_step p w w' (if path = p \<and> r = Inr () then [v] else [])"
  by (auto simp: fs_write_def trace_step_iff emit_def split: option.splits)

lemma get_candidate_locations_step:
  "get_candidate_locations env loc w = (cs, w') \<Longrightarrow> trace_step p w w' []"
  by (auto simp: get_candidate_locations_def trace_step_iff Let_def split: sum.splits)

lemma extract_location_step: "extract_location env q w = (l, w') \<Longrightarrow> trace_step p w w' []"
  by (auto simp: extract_location_def Let_def trace_step_refl
           split: prod.splits option.splits if_splits
           dest: get_candidate_locations_step)

lemma parse_date_step: "parse_date env q w = (d, w') \<Longrightarrow> trace_step p w w' []"
  by (auto simp: parse_date_def Let_def trace_step_refl split: prod.splits if_splits
           dest: read_clock_step)

lemma nlu_parser_travel_step: "nlu_parser_travel env q w = (n, w') \<Longrightarrow> trace_step p w w' []"
  by (auto simp: nlu_parser_travel_def split: prod.splits
           dest!: extract_location_step [where p = p] parse_date_step [where p = p]
                  read_clock_step [where p = p]
           intro: trace_step_quiet2)

lemma fetch_weather_step: "fetch_weather env loc w = (r, w') \<Longrightarrow> trace_step p w w' []"
  by (auto simp: fetch_weather_def trace_step_iff Let_def split: sum.splits prod.splits if_splits)

lemma travel_weather_agent_step:
  "travel_weather_agent env q w = (r, w') \<Longrightarrow> trace_step p w w' []"
  by (auto simp: travel_weather_agent_def split: sum.splits prod.splits if_splits
           dest!: nlu_parser_travel_step [where p = p] fetch_weather_step [where p = p]
           intro: trace_step_quiet2)

lemma transcribe_with_azure_step:
  "transcribe_with_azure env path langs w = (r, w') \<Longrightarrow> trace_step p w w' []"
  by (auto simp: transcribe_with_azure_def trace_step_iff Let_def
           split: sum.splits stt_reason.splits if_splits)

lemma translate_to_english_step:
  "translate_to_english env t f w = (r, w') \<Longrightarrow> trace_step p w w' []"
  by (auto simp: translate_to_english_def trace_step_iff split: if_splits)

lemma generate_travel_response_step:
  "generate_travel_response env tid path k w = (r, w') \<Longrightarrow> trace_step p w w' []"
  by (auto simp: generate_travel_response_def call_model_generate_def read_clock_def
                 trace_step_iff Let_def
           split: sum.splits prod.splits if_splits)

lemma stt_step_step: "stt_step env tid langs w = (r, w') \<Longrightarrow> trace_step p w w' []"
  by (auto simp: stt_step_def Let_def trace_step_refl split: sum.splits prod.splits if_splits
           dest!: transcribe_with_azure_step [where p = p] read_clock_step [where p = p]
           intro: trace_step_quiet2)

lemma translate_step_step: "translate_step env r0 w = (r, w') \<Longrightarrow> trace_step p w w' []"
  by (auto simp: translate_step_def Let_def trace_step_refl
           split: sum.splits prod.splits if_splits bool.splits
           dest!: translate_to_english_step [where p = p])

lemma agent_step_step: "agent_step env r0 w = (r, w') \<Longrightarrow> trace_step p w w' []"
  by (auto simp: agent_step_def Let_def trace_step_refl
           split: sum.splits prod.splits pyval.splits
           dest!: travel_weather_agent_step [where p = p])

section \<open>The records of the pipeline\<close>

text \<open>
  What each step of the pipeline does to the record: which fields it sets, which it
  leaves alone, and that the warnings stay a list that only grows.
\<close>


lemmas upd = update_conv'

lemma stt_step_record:
  assumes "stt_step env tid langs w = (Inr r, w')"
  shows "map fst r = [''trace_id'', ''text'', ''confidence'', ''provider'',
                      ''detected_language'', ''processed_at''] \<and>
         (\<exists>t. dict_get r ''text'' PNone = PStr t)"
  using assms
  by (auto simp: stt_step_def transcribe_with_azure_def read_clock_def Let_def dict_get_def
           split: if_splits sum.splits prod.splits stt_reason.splits)

lemma map_of_not_key: "k \<notin> set (map fst r) \<Longrightarrow> map_of r k = None"
  by (simp add: map_of_eq_None_iff)

lemma stt_step_fresh:
  assumes "stt_step env tid langs w = (Inr r, w')"
  shows "map_of r ''warnings'' = None \<and> map_of r ''text_en'' = None \<and> early_record r \<and>
         list_all (\<lambda>k. map_of r k \<noteq> None)
           [''trace_id'', ''text'', ''confidence'', ''provider'', ''detected_language'',
            ''processed_at'']"
proof -
  have k: "map fst r = [''trace_id'', ''text'', ''confidence'', ''provider'',
                        ''detected_language'', ''processed_at'']"
    using stt_step_record [OF assms] by blast
  have n: "map_of r x = None" if "x \<notin> set [''trace_id'', ''text'', ''confidence'', ''provider'',
                        ''detected_language'', ''processed_at'']" for x
    using that k map_of_not_key [of x r] by simp
  have s: "map_of r x \<noteq> None" if "x \<in> set [''trace_id'', ''text'', ''confidence'', ''provider'',
                        ''detected_language'', ''processed_at'']" for x
    using that k by (metis map_of_eq_None_iff set_map)
  show ?thesis
    using n s by (simp add: early_record_def warnings_ok_def)
qed

lemma append_warning_ok:
  assumes "warnings_ok r"
  shows "\<exists>r'. append_warning note r = Inr r' \<and> warnings_ok r' \<and>
              warnings_of r' = warnings_of r @ [PStr note] \<and>
              (\<forall>k. k \<noteq> ''warnings'' \<longrightarrow> map_of r' k = map_of r k)"
proof (cases "map_of r ''warnings''")
  case None
  then show ?thesis
    by (simp add: append_warning_def warnings_ok_def warnings_of_def upd)
next
  case (Some v)
  then obtain ws where "v = PList ws"
    using assms by (cases v) (simp_all add: warnings_ok_def)
  with Some show ?thesis
    by (simp add: append_warning_def warnings_ok_def warnings_of_def upd)
qed

lemma translate_step_record:
  assumes "translate_step env r w = (Inr (r', et), w')" and "map_of r ''warnings'' = None"
  shows "warnings_ok r' \<and> map_of r' ''text_en'' \<noteq> None \<and>
         (\<forall>k. k \<noteq> ''warnings'' \<and> k \<noteq> ''text_en'' \<longrightarrow> map_of r' k = map_of r k)"
  using assms
  by (auto simp: translate_step_def Let_def append_warning_def warnings_ok_def upd
           split: sum.splits prod.splits if_splits bool.splits option.splits)

lemma attach_agent_output_record:
  "map_of (attach_agent_output out r) ''agent_raw'' \<noteq> None \<and>
   map_of (attach_agent_output out r) ''nlu'' \<noteq> None \<and>
   map_of (attach_agent_output out r) ''weather'' \<noteq> None \<and>
   (\<forall>k. k \<notin> {''agent_raw'', ''nlu'', ''weather''} \<longrightarrow>
        map_of (attach_agent_output out r) k = map_of r k)"
  by (cases out) (simp_all add: attach_agent_output_def Let_def upd)

lemma agent_step_record:
  assumes "agent_step env r w = (Inr r', w')" and "warnings_ok r"
  shows "warnings_ok r' \<and>
         take (length (warnings_of r)) (warnings_of r') = warnings_of r \<and>
         map_of r' ''agent_raw'' \<noteq> None \<and> map_of r' ''nlu'' \<noteq> None \<and>
         map_of r' ''weather'' \<noteq> None \<and>
         (\<forall>k. k \<notin> {''agent_raw'', ''nlu'', ''weather'', ''warnings''} \<longrightarrow>
              map_of r' k = map_of r k)"
proof -
  obtain a w1 where a: "(case text_for_agent r of
                           PStr s \<Rightarrow> travel_weather_agent env s w
                         | _ \<Rightarrow> (Inl (Exn TypeError ''query is not a string''), w)) = (a, w1)"
    by (cases "(case text_for_agent r of
                           PStr s \<Rightarrow> travel_weather_agent env s w
                         | _ \<Rightarrow> (Inl (Exn TypeError ''query is not a string''), w))")
  show ?thesis
  proof (cases a)
    case (Inr out)
    then have "r' = attach_agent_output (PDict out) r"
      using assms(1) a by (simp add: agent_step_def)
    then show ?thesis
      using attach_agent_output_record [of "PDict out" r] assms(2)
      by (simp add: warnings_ok_def warnings_of_def)
  next
    case (Inl e)
    obtain r1 where r1: "append_warning (''agent_failed:'' @ exn_str e) r = Inr r1"
        "warnings_ok r1" "warnings_of r1 = warnings_of r @ [PStr (''agent_failed:'' @ exn_str e)]"
        "\<forall>k. k \<noteq> ''warnings'' \<longrightarrow> map_of r1 k = map_of r k"
      using append_warning_ok [OF assms(2)] by blast
    have "r' = AList.update ''weather'' (error_dict (''agent_failed:'' @ exn_str e))
                    (AList.update ''nlu'' (error_dict (''agent_failed:'' @ exn_str e))
                      (AList.update ''agent_raw'' (error_dict (exn_str e)) r1))"
      using assms(1) a Inl r1(1) by (simp add: agent_step_def)
    then show ?thesis
      using r1 by (simp add: warnings_ok_def warnings_of_def upd)
  qed
qed

section \<open>The writes of the pipeline and of the background wrapper\<close>

lemma path_join_suffix: "\<exists>x. path_join a b = x @ b"
  by (auto simp: path_join_def intro: exI [of _ "[]"])

lemma text_path_not_sidecar:
  "path_join (UPLOAD_DIR env) (tid @ ''.txt'') \<noteq> stt_sidecar_path env tid"
proof
  assume e: "path_join (UPLOAD_DIR env) (tid @ ''.txt'') = stt_sidecar_path env tid"
  obtain x where x: "path_join (UPLOAD_DIR env) (tid @ ''.txt'') = x @ tid @ ''.txt''"
    using path_join_suffix by blast
  obtain y where y: "stt_sidecar_path env tid = y @ tid @ ''.json''"
    unfolding stt_sidecar_path_def using path_join_suffix by blast
  have "last (x @ tid @ ''.txt'') = last (y @ tid @ ''.json'')"
    using e x y by simp
  then show False by simp
qed

lemma write_text_step:
  assumes "write_text env path v w = (r, w')" and "path \<noteq> p"
  shows "trace_step p w w' []"
  using assms
  by (auto simp: write_text_def split: if_splits pyval.splits prod.splits sum.splits
           dest!: fs_write_step [where p = p])

lemma in_keys_iff: "k \<in> set (map fst r) \<longleftrightarrow> map_of r k \<noteq> None"
  by (simp add: map_of_eq_None_iff)

lemma preservesI:
  assumes "\<And>k. map_of a k \<noteq> None \<Longrightarrow> k \<noteq> ''warnings'' \<Longrightarrow> map_of b k = map_of a k"
      and "take (length (warnings_of a)) (warnings_of b) = warnings_of a"
  shows "preserves (PDict a) (PDict b)"
  using assms unfolding preserves_def by (simp add: map_of_eq_None_iff)

lemma preservesD:
  assumes "preserves (PDict a) (PDict b)"
  shows "\<And>k. map_of a k \<noteq> None \<Longrightarrow> k \<noteq> ''warnings'' \<Longrightarrow> map_of b k = map_of a k"
    and "take (length (warnings_of a)) (warnings_of b) = warnings_of a"
  using assms unfolding preserves_def by (auto simp: map_of_eq_None_iff)

lemma early_recordD:
  assumes "early_record r"
  shows "warnings_ok r" "map_of r ''text_file'' = None" "map_of r ''agent_raw'' = None"
        "map_of r ''nlu'' = None" "map_of r ''weather'' = None"
        "map_of r ''response'' = None" "map_of r ''status'' = None"
  using assms by (simp_all add: early_record_def)

lemma agent_after_text_file:
  assumes a: "agent_step env (AList.update ''text_file'' v r) w = (Inr r', w')"
      and er: "early_record r"
      and pr: "list_all (\<lambda>k. map_of r k \<noteq> None)
                 [''trace_id'', ''text'', ''confidence'', ''provider'', ''detected_language'',
                  ''processed_at'', ''text_en'']"
  shows "preserves (PDict r) (PDict r') \<and> pipeline_record r'"
proof -
  let ?r2 = "AList.update ''text_file'' v r"
  have ok2: "warnings_ok ?r2"
    using early_recordD(1) [OF er] by (simp add: warnings_ok_def upd)
  have w2: "warnings_of ?r2 = warnings_of r"
    by (simp add: warnings_of_def upd)
  note ag = agent_step_record [OF a ok2]
  have frame: "map_of r' k = map_of ?r2 k"
    if "k \<notin> {''agent_raw'', ''nlu'', ''weather'', ''warnings''}" for k
    using ag that by blast
  have p: "preserves (PDict r) (PDict r')"
  proof (rule preservesI)
    fix k assume k: "map_of r k \<noteq> None" "k \<noteq> ''warnings''"
    then have "k \<notin> {''agent_raw'', ''nlu'', ''weather'', ''warnings'', ''text_file''}"
      using early_recordD [OF er] by auto
    then show "map_of r' k = map_of r k"
      using frame [of k] by (simp add: upd)
  next
    show "take (length (warnings_of r)) (warnings_of r') = warnings_of r"
      using ag w2 by simp
  qed
  have "pipeline_record r'"
    using ag pr early_recordD [OF er] frame
    by (simp add: pipeline_record_def upd)
  with p show ?thesis by simp
qed

lemma finish_trace_writes:
  assumes ft: "finish_trace env tid r et w = (res, w')"
      and er: "early_record r"
      and pr: "list_all (\<lambda>k. map_of r k \<noteq> None)
                 [''trace_id'', ''text'', ''confidence'', ''provider'', ''detected_language'',
                  ''processed_at'', ''text_en'']"
  shows "(\<exists>e. res = Inl e \<and> trace_step (stt_sidecar_path env tid) w w' []) \<or>
         (\<exists>e. res = Inl e \<and> trace_step (stt_sidecar_path env tid) w w' [PDict r]) \<or>
         (\<exists>r'. res = Inr r' \<and> trace_step (stt_sidecar_path env tid) w w' [PDict r, PDict r'] \<and>
               preserves (PDict r) (PDict r') \<and> pipeline_record r')"
proof -
  let ?p = "stt_sidecar_path env tid"
  let ?tp = "path_join (UPLOAD_DIR env) (tid @ ''.txt'')"
  obtain a w1 where a: "fs_write env ?p (PDict r) w = (a, w1)"
    by (cases "fs_write env ?p (PDict r) w")
  note s1 = fs_write_step [OF a, of ?p]
  show ?thesis
  proof (cases a)
    case (Inl e)
    then show ?thesis using ft a s1 by (auto simp: finish_trace_def)
  next
    case (Inr u)
    then have s1': "trace_step ?p w w1 [PDict r]" using s1 by simp
    obtain b w2 where b: "write_text env ?tp et w1 = (b, w2)"
      by (cases "write_text env ?tp et w1")
    have s2: "trace_step ?p w w2 [PDict r]"
      using trace_step_trans [OF s1' write_text_step [OF b text_path_not_sidecar]] by simp
    show ?thesis
    proof (cases b)
      case (Inl e)
      then show ?thesis using ft a Inr b s2 by (auto simp: finish_trace_def Let_def)
    next
      case (Inr u2)
      note bI = this
      obtain c w3 where c: "agent_step env (AList.update ''text_file'' (PStr ?tp) r) w2 = (c, w3)"
        by (cases "agent_step env (AList.update ''text_file'' (PStr ?tp) r) w2")
      have s3: "trace_step ?p w w3 [PDict r]"
        using trace_step_trans [OF s2 agent_step_step [OF c]] by simp
      show ?thesis
      proof (cases c)
        case (Inl e)
        then show ?thesis using ft a \<open>a = Inr u\<close> b bI c s3 by (auto simp: finish_trace_def Let_def)
      next
        case (Inr r')
        note cI = this
        obtain d w4 where d: "fs_write env ?p (PDict r') w3 = (d, w4)"
          by (cases "fs_write env ?p (PDict r') w3")
        note s4 = trace_step_trans [OF s3 fs_write_step [OF d, of ?p]]
        show ?thesis
        proof (cases d)
          case (Inl e)
          then show ?thesis
            using ft a \<open>a = Inr u\<close> b bI c cI d s4 by (auto simp: finish_trace_def Let_def)
        next
          case (Inr u4)
          have "preserves (PDict r) (PDict r') \<and> pipeline_record r'"
            using agent_after_text_file [OF _ er pr] c cI by simp
          then show ?thesis
            using ft a \<open>a = Inr u\<close> b bI c cI d Inr s4 by (auto simp: finish_trace_def Let_def)
        qed
      qed
    qed
  qed
qed

lemma translate_step_early:
  assumes t: "translate_step env r w = (Inr (r', et), w')"
      and f: "map_of r ''warnings'' = None" "early_record r"
      and p: "list_all (\<lambda>k. map_of r k \<noteq> None)
                [''trace_id'', ''text'', ''confidence'', ''provider'', ''detected_language'',
                 ''processed_at'']"
  shows "early_record r' \<and>
         list_all (\<lambda>k. map_of r' k \<noteq> None)
           [''trace_id'', ''text'', ''confidence'', ''provider'', ''detected_language'',
            ''processed_at'', ''text_en'']"
proof -
  note tr = translate_step_record [OF t f(1)]
  have frame: "map_of r' k = map_of r k" if "k \<noteq> ''warnings''" "k \<noteq> ''text_en''" for k
    using tr that by blast
  show ?thesis
    using tr p early_recordD [OF f(2)] frame
    by (simp add: early_record_def)
qed

lemma process_trace_writes:
  assumes pt: "process_trace env tid langs w = (res, w')"
  shows "(\<exists>e. res = Inl e \<and> trace_step (stt_sidecar_path env tid) w w' []) \<or>
         (\<exists>e r. res = Inl e \<and> trace_step (stt_sidecar_path env tid) w w' [PDict r]) \<or>
         (\<exists>r r'. res = Inr r' \<and> trace_step (stt_sidecar_path env tid) w w' [PDict r, PDict r'] \<and>
               preserves (PDict r) (PDict r') \<and> pipeline_record r')"
proof -
  let ?p = "stt_sidecar_path env tid"
  obtain a w1 where a: "stt_step env tid langs w = (a, w1)"
    by (cases "stt_step env tid langs w")
  note s1 = stt_step_step [OF a, of ?p]
  show ?thesis
  proof (cases a)
    case (Inl e)
    then show ?thesis using pt a s1 by (auto simp: process_trace_def)
  next
    case (Inr r0)
    note aI = this
    note fr = stt_step_fresh [OF a [unfolded aI]]
    obtain b w2 where b: "translate_step env r0 w1 = (b, w2)"
      by (cases "translate_step env r0 w1")
    note s2 = trace_step_quiet2 [OF s1 translate_step_step [OF b, of ?p]]
    show ?thesis
    proof (cases b)
      case (Inl e)
      then show ?thesis using pt a aI b s2 by (auto simp: process_trace_def)
    next
      case (Inr x)
      obtain r1 et where x: "x = (r1, et)" by (cases x)
      have e1: "early_record r1 \<and>
         list_all (\<lambda>k. map_of r1 k \<noteq> None)
           [''trace_id'', ''text'', ''confidence'', ''provider'', ''detected_language'',
            ''processed_at'', ''text_en'']"
        using translate_step_early [OF b [unfolded Inr x] conjunct1 [OF fr]
                conjunct1 [OF conjunct2 [OF conjunct2 [OF fr]]]
                conjunct2 [OF conjunct2 [OF conjunct2 [OF fr]]]] .
      have ft: "finish_trace env tid r1 et w2 = (res, w')"
        using pt a aI b Inr x by (simp add: process_trace_def)
      note fw = finish_trace_writes [OF ft conjunct1 [OF e1] conjunct2 [OF e1]]
      show ?thesis
        using fw trace_step_quiet2 [OF s2] by blast
    qed
  qed
qed

lemma write_failed_writes:
  assumes "write_failed env tid e w = (res, w')"
  shows "trace_step (stt_sidecar_path env tid) w w' [] \<or>
         (\<exists>n. trace_step (stt_sidecar_path env tid) w w' [failed_record tid (exn_str e) n])"
proof -
  let ?p = "stt_sidecar_path env tid"
  obtain n w1 where c: "read_clock env w = (n, w1)" by (cases "read_clock env w")
  let ?err = "PDict [(''trace_id'', PStr tid), (''status'', PStr ''failed''),
                     (''error'', PStr (exn_str e)), (''processed_at'', PInt (n div 1000000))]"
  have f: "fs_write env ?p ?err w1 = (res, w')"
    using assms c by (simp add: write_failed_def)
  note s = trace_step_quiet2 [OF read_clock_step [OF c, of ?p] fs_write_step [OF f, of ?p]]
  show ?thesis
  proof (cases "res = Inr ()")
    case True
    then have "trace_step ?p w w' [failed_record tid (exn_str e) (n div 1000000)]"
      using s by (simp add: failed_record_def)
    then show ?thesis by blast
  next
    case False
    then show ?thesis using s by simp
  qed
qed

lemma chatbot_failed_writes:
  assumes cf: "chatbot_failed env tid r e w = (res, w')"
      and ok: "warnings_ok r"
      and pr: "preserves (PDict base) (PDict r)"
      and st: "map_of base ''status'' = None"
  shows "trace_step (stt_sidecar_path env tid) w w' [] \<or>
         (\<exists>x. trace_step (stt_sidecar_path env tid) w w' [x] \<and>
              (preserves (PDict base) x \<or> (\<exists>msg n. x = failed_record tid msg n)))"
proof -
  let ?p = "stt_sidecar_path env tid"
  obtain r1 where r1: "append_warning (''chatbot_failed:'' @ exn_str e) r = Inr r1"
      "warnings_ok r1" "warnings_of r1 = warnings_of r @ [PStr (''chatbot_failed:'' @ exn_str e)]"
      "\<forall>k. k \<noteq> ''warnings'' \<longrightarrow> map_of r1 k = map_of r k"
    using append_warning_ok [OF ok] by blast
  let ?x = "AList.update ''status'' (PStr ''agent_done_chatbot_failed'') r1"
  obtain a w1 where a: "fs_write env ?p (PDict ?x) w = (a, w1)"
    by (cases "fs_write env ?p (PDict ?x) w")
  note s1 = fs_write_step [OF a, of ?p]
  have px: "preserves (PDict base) (PDict ?x)"
  proof (rule preservesI)
    fix k assume k: "map_of base k \<noteq> None" "k \<noteq> ''warnings''"
    then have "k \<noteq> ''status''" using st by auto
    then show "map_of ?x k = map_of base k"
      using k r1(4) preservesD(1) [OF pr k] by (simp add: upd)
  next
    have "warnings_of ?x = warnings_of r @ [PStr (''chatbot_failed:'' @ exn_str e)]"
      using r1(3) by (simp add: warnings_of_def upd)
    then show "take (length (warnings_of base)) (warnings_of ?x) = warnings_of base"
      using preservesD(2) [OF pr]
      by (metis append_eq_conv_conj append.assoc append_take_drop_id)
  qed
  show ?thesis
  proof (cases a)
    case (Inr u)
    then have "res = Inr ()" "w' = w1"
      using cf r1(1) a by (auto simp: chatbot_failed_def)
    then show ?thesis using s1 Inr px by auto
  next
    case (Inl e2)
    then have wf: "write_failed env tid e2 w1 = (res, w')"
      using cf r1(1) a by (simp add: chatbot_failed_def)
    have q: "trace_step ?p w w1 []" using s1 Inl by simp
    show ?thesis
      using write_failed_writes [OF wf] trace_step_quiet2 [OF q] by blast
  qed
qed

lemma pipeline_recordD:
  assumes "pipeline_record r"
  shows "warnings_ok r" "map_of r ''response'' = None" "map_of r ''status'' = None"
  using assms by (simp_all add: pipeline_record_def)

lemma preserves_refl: "preserves (PDict r) (PDict r)"
  by (rule preservesI) simp_all

lemma merge_response_record:
  assumes "pipeline_record r"
  shows "\<exists>m. merge_response bot_out r = Inr m \<and> warnings_ok m \<and> preserves (PDict r) (PDict m) \<and>
             map_of m ''status'' = Some (PStr ''done'') \<and> map_of m ''response'' \<noteq> None"
proof -
  note d = pipeline_recordD [OF assms]
  let ?f = "[(''text'', dict_get bot_out ''response_text'' PNone),
             (''generated_at'', dict_get bot_out ''generated_at'' PNone),
             (''response_language'', dict_get bot_out ''response_language'' PNone),
             (''tts'', dict_get bot_out ''tts'' PNone),
             (''error'', dict_get bot_out ''error'' PNone)]"
  let ?m = "AList.update ''status'' (PStr ''done'')
              (AList.update ''response'' (PDict (AList.updates (map fst ?f) (map snd ?f) [])) r)"
  have m: "merge_response bot_out r = Inr ?m"
    using d(2) by (simp add: merge_response_def Let_def)
  have ok: "warnings_ok ?m"
    using d(1) by (simp add: warnings_ok_def upd)
  have p: "preserves (PDict r) (PDict ?m)"
  proof (rule preservesI)
    fix k assume "map_of r k \<noteq> None" "k \<noteq> ''warnings''"
    then show "map_of ?m k = map_of r k" using d(2,3) by (auto simp: upd)
  next
    show "take (length (warnings_of r)) (warnings_of ?m) = warnings_of r"
      by (simp add: warnings_of_def upd)
  qed
  show ?thesis using m ok p by (simp add: upd)
qed

lemma respond_writes:
  assumes rs: "respond env tid r w = (res, w')" and pr: "pipeline_record r"
  shows "trace_step (stt_sidecar_path env tid) w w' [] \<or>
         (\<exists>x. trace_step (stt_sidecar_path env tid) w w' [x] \<and>
              (preserves (PDict r) x \<or> (\<exists>msg n. x = failed_record tid msg n)))"
proof -
  let ?p = "stt_sidecar_path env tid"
  let ?k = "opt_or (OPENAI_API_KEY env) (GOOGLE_API_KEY env)"
  note d = pipeline_recordD [OF pr]
  obtain a w1 where a: "generate_travel_response env tid ?p ?k w = (a, w1)"
    by (cases "generate_travel_response env tid ?p ?k w")
  note s1 = generate_travel_response_step [OF a, of ?p]
  show ?thesis
  proof (cases a)
    case (Inl e)
    then have cf: "chatbot_failed env tid r e w1 = (res, w')"
      using rs a by (simp add: respond_def)
    show ?thesis
      using chatbot_failed_writes [OF cf d(1) preserves_refl d(3)] trace_step_quiet2 [OF s1]
      by blast
  next
    case (Inr bot_out)
    obtain m where m: "merge_response bot_out r = Inr m" "warnings_ok m"
        "preserves (PDict r) (PDict m)"
      using merge_response_record [OF pr] by blast
    obtain b w2 where b: "fs_write env ?p (PDict m) w1 = (b, w2)"
      by (cases "fs_write env ?p (PDict m) w1")
    note s2 = trace_step_quiet2 [OF s1 fs_write_step [OF b, of ?p]]
    show ?thesis
    proof (cases b)
      case (Inr u)
      then have "w' = w2" using rs a \<open>a = Inr bot_out\<close> m(1) b by (auto simp: respond_def)
      then show ?thesis using s2 Inr m(3) by auto
    next
      case (Inl e)
      then have cf: "chatbot_failed env tid m e w2 = (res, w')"
        using rs a \<open>a = Inr bot_out\<close> m(1) b by (simp add: respond_def)
      have q: "trace_step ?p w w2 []" using s2 Inl by simp
      show ?thesis
        using chatbot_failed_writes [OF cf m(2) m(3) d(3)] trace_step_quiet2 [OF q] by blast
    qed
  qed
qed

text \<open>The definitions to unfold when a concrete run is evaluated.\<close>

lemmas run_eval =
  background_process_trace_def respond_def chatbot_failed_def write_failed_def merge_response_def
  process_trace_def finish_trace_def stt_step_def translate_step_def agent_step_def
  text_for_agent_def attach_agent_output_def write_text_def append_warning_def
  transcribe_with_azure_def translate_to_english_def
  travel_weather_agent_def nlu_parser_travel_def extract_location_def raw_location_def
  ner_location_def get_candidate_locations_def candidate_string_def parse_date_def
  fetch_weather_def weather_result_def get2_def weather0_def
  generate_travel_response_def response_inputs_def load_json_def extract_nlu_weather_def
  build_merged_context_def response_city_def call_model_generate_def user_prompt_def
  read_clock_def fs_write_def emit_def stt_sidecar_path_def path_join_def
  dict_get_def py_or_def py_or_else_def py_str_def opt_or_def opt_str_def error_dict_def
  split_comma_first_def str_lower_def lower_char_def startswith_def one_day_def
  Let_def

lemma trace_step_writes: "trace_step p w w' ws \<Longrightarrow> writes_since p w w' = ws"
  by (simp add: trace_step_def)

lemmas envs = env0_def env_keyless_def env_ja_def env_ja_untranslated_def env_silent_ja_def
  env_txt_refused_def world_audio_def world_heard_def

lemma preserves_trans:
  assumes "preserves a b" and "preserves b c"
  shows "preserves a c"
proof -
  obtain x y z where abc: "a = PDict x" "b = PDict y" "c = PDict z"
    using assms by (cases a; cases b; cases c) (simp_all add: preserves_def)
  note ab = preservesD [OF assms(1) [unfolded abc]]
  note bc = preservesD [OF assms(2) [unfolded abc]]
  have "length (warnings_of x) \<le> length (warnings_of y)"
    using ab(2) by (metis length_take min.cobounded1)
  then have "take (length (warnings_of x)) (warnings_of z) =
             take (length (warnings_of x)) (take (length (warnings_of y)) (warnings_of z))"
    by (simp add: min_def)
  then have w: "take (length (warnings_of x)) (warnings_of z) = warnings_of x"
    using ab(2) bc(2) by simp
  show ?thesis
    unfolding abc
  proof (rule preservesI)
    fix k assume k: "map_of x k \<noteq> None" "k \<noteq> ''warnings''"
    then have "map_of y k = map_of x k" using ab(1) by simp
    then show "map_of z k = map_of x k" using bc(1) [of k] k by simp
  qed (rule w)
qed

lemma process_trace_final:
  assumes s: "stt_step env tid langs w = (Inr result, w1)"
      and t: "translate_step env result w1 = (Inr (r1, et), w2)"
      and p: "process_trace env tid langs w = (Inr r', w3)"
  shows "preserves (PDict r1) (PDict r')"
proof -
  note fr = stt_step_fresh [OF s]
  have e1: "early_record r1 \<and>
     list_all (\<lambda>k. map_of r1 k \<noteq> None)
       [''trace_id'', ''text'', ''confidence'', ''provider'', ''detected_language'',
        ''processed_at'', ''text_en'']"
    using translate_step_early [OF t conjunct1 [OF fr]
            conjunct1 [OF conjunct2 [OF conjunct2 [OF fr]]]
            conjunct2 [OF conjunct2 [OF conjunct2 [OF fr]]]] .
  have ft: "finish_trace env tid r1 et w2 = (Inr r', w3)"
    using p s t by (simp add: process_trace_def)
  show ?thesis
    using finish_trace_writes [OF ft conjunct1 [OF e1] conjunct2 [OF e1]] by auto
qed

section \<open>A failed response keeps the record (C2)\<close>



section \<open>Response generation and its failures\<close>

text \<open>
  Claim C3 says that \<open>generate_travel_response\<close> returns a result object for every
  input. It does not: with a complete sidecar but no API key (argument and both
  environment variables unset) it raises \<open>RuntimeError\<close>, as line 89 says.
\<close>

theorem generate_travel_response_raises_without_key:
  "fst (generate_travel_response (env0\<lparr>GOOGLE_API_KEY := None\<rparr>) ''t1'' ''uploads/t1.json'' None
          world_ready) =
     Inl (Exn RuntimeError ''No API key provided for chatbot'')"
  by (simp add: generate_travel_response_def opt_or_def env0_def)

lemma response_inputs_missing_field:
  assumes "files w path = Some (PDict d)"
      and "absent_or_empty d ''nlu'' \<or> absent_or_empty d ''weather''"
  shows "\<exists>e. response_inputs path w = Inl e"
proof -
  let ?n = "py_or_else (dict_get d ''nlu'' PNone)
              (seq (py_get (PDict d) ''agent_raw'' (PDict [])) (\<lambda>raw. py_get raw ''nlu'' PNone))"
  let ?w = "py_or_else (dict_get d ''weather'' PNone)
              (seq (py_get (PDict d) ''agent_raw'' (PDict [])) (\<lambda>raw. py_get raw ''weather'' PNone))"
  have nlu: "absent_or_empty d ''nlu'' \<Longrightarrow> (\<exists>e. ?n = Inl e) \<or> (\<exists>v. ?n = Inr v \<and> \<not> truthy v)"
    by (auto simp: absent_or_empty_def py_or_else_def dict_get_def
             split: option.splits pyval.splits)
  have wea: "absent_or_empty d ''weather'' \<Longrightarrow> (\<exists>e. ?w = Inl e) \<or> (\<exists>v. ?w = Inr v \<and> \<not> truthy v)"
    by (auto simp: absent_or_empty_def py_or_else_def dict_get_def
             split: option.splits pyval.splits)
  have "\<exists>e. extract_nlu_weather (PDict d) = Inl e"
    using assms(2) nlu wea
    by (cases ?n; cases ?w) (auto simp: extract_nlu_weather_def)
  then show ?thesis
    using assms(1) by (auto simp: response_inputs_def load_json_def)
qed

lemma response_city_wf:
  assumes "py_or (dict_get nd ''entities'' (PDict [])) (PDict []) = PDict en"
      and "py_or (py_or (dict_get wd ''location'' PNone) (dict_get en ''location'' PNone))
             (PStr '''') = PStr l"
  shows "\<exists>city. response_city (PDict nd) (PDict wd) = Inr city"
proof -
  have en: "py_or (dict_get nd ''entities'' PNone) (PDict []) = PDict en"
    using assms(1) by (auto simp: py_or_def dict_get_def split: option.splits if_splits)
  have "\<exists>s. py_or (py_or (dict_get wd ''location'' PNone) (dict_get en ''location'' PNone))
              (PStr ''unknown'') = PStr s"
    using assms(2) by (auto simp: py_or_def split: if_splits)
  then show ?thesis
    using en by (auto simp: response_city_def py_or_else_def py_or_def split: if_splits)
qed

lemma response_inputs_wf:
  assumes "files w path = Some (PDict d)"
      and "dict_get d ''nlu'' PNone = PDict nd" and "nd \<noteq> []"
      and "dict_get d ''weather'' PNone = PDict wd" and "wd \<noteq> []"
      and "py_or (dict_get nd ''dialog_metadata'' (PDict [])) (PDict []) = PDict dm"
      and "py_or (dict_get nd ''entities'' (PDict [])) (PDict []) = PDict en"
      and "py_or (dict_get nd ''slots'' (PDict [])) (PDict []) = PDict sl"
      and "py_or (py_or (dict_get wd ''location'' PNone) (dict_get en ''location'' PNone))
             (PStr '''') = PStr l"
      and "py_or (dict_get wd ''country'' PNone) (PStr '''') = PStr c"
  shows "\<exists>mc city. response_inputs path w = Inr (mc, city)"
proof -
  have x: "extract_nlu_weather (PDict d) = Inr (PDict nd, PDict wd)"
    using assms(2-5) by (simp add: extract_nlu_weather_def py_or_else_def)
  obtain mc where mc: "build_merged_context (PDict nd) (PDict wd) = Inr (PDict mc)"
    using assms(6-10)
    by (simp add: build_merged_context_def py_or_else_def Let_def)
       (simp add: py_or_def split: if_splits)
  obtain city where city: "response_city (PDict nd) (PDict wd) = Inr city"
    using response_city_wf [OF assms(7) assms(9)] by blast
  show ?thesis
    using assms(1) x mc city by (simp add: response_inputs_def load_json_def)
qed

text \<open>
  Claim C3, amended. \<open>generate_travel_response\<close> raises before any model call, leaving
  the world as it was, when no API key is available (\<open>RuntimeError\<close>), when the sidecar
  file does not exist (\<open>FileNotFoundError\<close>), when the record has no usable \<open>nlu\<close> or no
  usable \<open>weather\<close>, and more generally whenever reading the sidecar and building the
  context and the city (lines 91 to 95) raises. In every other case, in particular for a
  record whose \<open>nlu\<close> and \<open>weather\<close> are well-formed non-empty dicts, it returns a result
  object whatever the model call does: when the call fails with \<open>e\<close> the result has the
  empty response text and the error note \<open>chatbot_failed: e\<close>; when it succeeds the
  result has the model's text and no error.
\<close>

theorem generate_travel_response_nonfatal_llm:
  "(\<not> opt_truthy (opt_or (opt_or api_key (OPENAI_API_KEY env)) (GOOGLE_API_KEY env)) \<longrightarrow>
      generate_travel_response env tid path api_key w =
        (Inl (Exn RuntimeError ''No API key provided for chatbot''), w)) \<and>
   (opt_truthy (opt_or (opt_or api_key (OPENAI_API_KEY env)) (GOOGLE_API_KEY env)) \<and>
    files w path = None \<longrightarrow>
      (\<exists>m. generate_travel_response env tid path api_key w = (Inl (Exn FileNotFoundError m), w))) \<and>
   (\<forall>d. files w path = Some (PDict d) \<and>
        (absent_or_empty d ''nlu'' \<or> absent_or_empty d ''weather'') \<longrightarrow>
      (\<exists>e. generate_travel_response env tid path api_key w = (Inl e, w))) \<and>
   (\<forall>e. opt_truthy (opt_or (opt_or api_key (OPENAI_API_KEY env)) (GOOGLE_API_KEY env)) \<and>
        response_inputs path w = Inl e \<longrightarrow>
      generate_travel_response env tid path api_key w = (Inl e, w)) \<and>
   (\<forall>d nd wd dm en sl l c.
      files w path = Some (PDict d) \<and>
      dict_get d ''nlu'' PNone = PDict nd \<and> nd \<noteq> [] \<and>
      dict_get d ''weather'' PNone = PDict wd \<and> wd \<noteq> [] \<and>
      py_or (dict_get nd ''dialog_metadata'' (PDict [])) (PDict []) = PDict dm \<and>
      py_or (dict_get nd ''entities'' (PDict [])) (PDict []) = PDict en \<and>
      py_or (dict_get nd ''slots'' (PDict [])) (PDict []) = PDict sl \<and>
      py_or (py_or (dict_get wd ''location'' PNone) (dict_get en ''location'' PNone))
        (PStr '''') = PStr l \<and>
      py_or (dict_get wd ''country'' PNone) (PStr '''') = PStr c \<longrightarrow>
      (\<exists>mc city. response_inputs path w = Inr (mc, city))) \<and>
   (\<forall>k mc city.
      opt_or (opt_or api_key (OPENAI_API_KEY env)) (GOOGLE_API_KEY env) = Some k \<and> k \<noteq> [] \<and>
      response_inputs path w = Inr (mc, city) \<longrightarrow>
      (\<exists>r w'. generate_travel_response env tid path api_key w = (Inr r, w') \<and>
         (case generate_content env (length (events w)) k system_prompt (user_prompt env mc) of
            Inl e \<Rightarrow> map_of r ''response_text'' = Some (PStr '''') \<and>
                     map_of r ''error'' = Some (PStr (''chatbot_failed: '' @ exn_str e))
          | Inr t \<Rightarrow> map_of r ''response_text'' = Some (PStr t) \<and>
                     map_of r ''error'' = Some PNone)))"
proof (intro conjI allI impI)
  assume "\<not> opt_truthy (opt_or (opt_or api_key (OPENAI_API_KEY env)) (GOOGLE_API_KEY env))"
  then show "generate_travel_response env tid path api_key w =
               (Inl (Exn RuntimeError ''No API key provided for chatbot''), w)"
    by (simp add: generate_travel_response_def Let_def)
next
  assume "opt_truthy (opt_or (opt_or api_key (OPENAI_API_KEY env)) (GOOGLE_API_KEY env)) \<and>
          files w path = None"
  then show "\<exists>m. generate_travel_response env tid path api_key w =
                   (Inl (Exn FileNotFoundError m), w)"
    by (simp add: generate_travel_response_def response_inputs_def load_json_def Let_def)
next
  fix d
  assume h: "files w path = Some (PDict d) \<and>
             (absent_or_empty d ''nlu'' \<or> absent_or_empty d ''weather'')"
  then obtain e where "response_inputs path w = Inl e"
    using response_inputs_missing_field by blast
  then show "\<exists>e. generate_travel_response env tid path api_key w = (Inl e, w)"
    by (simp add: generate_travel_response_def Let_def)
next
  fix e
  assume "opt_truthy (opt_or (opt_or api_key (OPENAI_API_KEY env)) (GOOGLE_API_KEY env)) \<and>
          response_inputs path w = Inl e"
  then show "generate_travel_response env tid path api_key w = (Inl e, w)"
    by (simp add: generate_travel_response_def Let_def)
next
  fix d nd wd dm en sl l c
  assume "files w path = Some (PDict d) \<and>
      dict_get d ''nlu'' PNone = PDict nd \<and> nd \<noteq> [] \<and>
      dict_get d ''weather'' PNone = PDict wd \<and> wd \<noteq> [] \<and>
      py_or (dict_get nd ''dialog_metadata'' (PDict [])) (PDict []) = PDict dm \<and>
      py_or (dict_get nd ''entities'' (PDict [])) (PDict []) = PDict en \<and>
      py_or (dict_get nd ''slots'' (PDict [])) (PDict []) = PDict sl \<and>
      py_or (py_or (dict_get wd ''location'' PNone) (dict_get en ''location'' PNone))
        (PStr '''') = PStr l \<and>
      py_or (dict_get wd ''country'' PNone) (PStr '''') = PStr c"
  then show "\<exists>mc city. response_inputs path w = Inr (mc, city)"
    using response_inputs_wf [of w path d nd wd dm en sl l c] by blast
next
  fix k mc city
  assume "opt_or (opt_or api_key (OPENAI_API_KEY env)) (GOOGLE_API_KEY env) = Some k \<and> k \<noteq> [] \<and>
          response_inputs path w = Inr (mc, city)"
  then show "\<exists>r w'. generate_travel_response env tid path api_key w = (Inr r, w') \<and>
         (case generate_content env (length (events w)) k system_prompt (user_prompt env mc) of
            Inl e \<Rightarrow> map_of r ''response_text'' = Some (PStr '''') \<and>
                     map_of r ''error'' = Some (PStr (''chatbot_failed: '' @ exn_str e))
          | Inr t \<Rightarrow> map_of r ''response_text'' = Some (PStr t) \<and>
                     map_of r ''error'' = Some PNone)"
    by (cases "generate_content env (length (events w)) k system_prompt (user_prompt env mc)")
       (simp_all add: generate_travel_response_def call_model_generate_def read_clock_def Let_def)
qed

theorem generate_travel_response_nonfatal_llm_witness:
  "generate_travel_response env_llm_down ''t1'' ''uploads/t1.json'' None world0 =
     (Inl (Exn FileNotFoundError ''No such file or directory''), world0) \<and>
   generate_travel_response env_llm_down ''t1'' ''uploads/t1.json'' None world_failed =
     (Inl (Exn ValueError ''No NLU found in JSON''), world_failed) \<and>
   opt_or (opt_or None (OPENAI_API_KEY env_llm_down)) (GOOGLE_API_KEY env_llm_down) = Some ''g'' \<and>
   (\<exists>mc. response_inputs ''uploads/t1.json'' world_ready = Inr (mc, ''Tokyo'')) \<and>
   (\<exists>r w'. generate_travel_response env_llm_down ''t1'' ''uploads/t1.json'' None world_ready =
              (Inr r, w') \<and>
            map_of r ''response_text'' = Some (PStr '''') \<and>
            map_of r ''error'' = Some (PStr ''chatbot_failed: quota exceeded'')) \<and>
   (\<exists>r w'. generate_travel_response env0 ''t1'' ''uploads/t1.json'' None world_ready =
              (Inr r, w') \<and>
            map_of r ''response_text'' = Some (PStr ''Clear sky in Tokyo today.'') \<and>
            map_of r ''error'' = Some PNone)"
proof -
  let ?mc = "[(''user_query'', PStr ''weather in Tokyo today''),
              (''intent'', PStr ''get_weather_travel_advice''),
              (''location'', PStr ''Tokyo, JP''), (''date'', PStr ''1970-01-01''),
              (''theme'', PStr ''travel''),
              (''weather_data'', PDict [(''location'', PStr ''Tokyo''), (''country'', PStr ''JP''),
                                        (''temperature_c'', PInt 21)])]"
  have k: "opt_or (opt_or None (OPENAI_API_KEY env_llm_down)) (GOOGLE_API_KEY env_llm_down) = Some ''g''"
    by (simp add: opt_or_def env_llm_down_def env0_def)
  have k0: "opt_or (opt_or None (OPENAI_API_KEY env0)) (GOOGLE_API_KEY env0) = Some ''g''"
    by (simp add: opt_or_def env0_def)
  have kt: "opt_truthy (opt_or (opt_or None (OPENAI_API_KEY env_llm_down))
                         (GOOGLE_API_KEY env_llm_down))"
    by (simp add: k)
  have i: "response_inputs ''uploads/t1.json'' world_ready = Inr (?mc, ''Tokyo'')"
    by (simp add: response_inputs_def load_json_def world_ready_def sidecar_ready_def
          extract_nlu_weather_def build_merged_context_def response_city_def
          py_or_else_def py_or_def dict_get_def Let_def strip_eval split_comma_first_def)
  have f0: "files world0 ''uploads/t1.json'' = None"
    by (simp add: world0_def)
  have ff: "response_inputs ''uploads/t1.json'' world_failed =
              Inl (Exn ValueError ''No NLU found in JSON'')"
    by (simp add: response_inputs_def load_json_def world_failed_def extract_nlu_weather_def
          py_or_else_def dict_get_def)
  have g: "generate_content env_llm_down n ''g'' s u = Inl (Exn ServiceError ''quota exceeded'')"
    for n s u
    by (simp add: env_llm_down_def)
  have g0: "generate_content env0 n ''g'' s u = Inr ''Clear sky in Tokyo today.''"
    for n s u
    by (simp add: env0_def)
  note t = generate_travel_response_nonfatal_llm
             [of None env_llm_down "''t1''" "''uploads/t1.json''"]
  have a: "generate_travel_response env_llm_down ''t1'' ''uploads/t1.json'' None world0 =
             (Inl (Exn FileNotFoundError ''No such file or directory''), world0)"
    using t [of world0, THEN conjunct2, THEN conjunct1] kt f0
    by (auto simp: generate_travel_response_def response_inputs_def load_json_def)
  have b: "generate_travel_response env_llm_down ''t1'' ''uploads/t1.json'' None world_failed =
             (Inl (Exn ValueError ''No NLU found in JSON''), world_failed)"
    using t [of world_failed, THEN conjunct2, THEN conjunct2, THEN conjunct2, THEN conjunct1]
          kt ff
    by blast
  have c: "\<exists>r w'. generate_travel_response env_llm_down ''t1'' ''uploads/t1.json'' None world_ready =
              (Inr r, w') \<and>
            map_of r ''response_text'' = Some (PStr '''') \<and>
            map_of r ''error'' = Some (PStr ''chatbot_failed: quota exceeded'')"
    using t [of world_ready, THEN conjunct2, THEN conjunct2, THEN conjunct2, THEN conjunct2,
             THEN conjunct2, rule_format, OF conjI [OF k conjI [OF _ i]]]
    by (simp add: g)
  have d: "\<exists>r w'. generate_travel_response env0 ''t1'' ''uploads/t1.json'' None world_ready =
              (Inr r, w') \<and>
            map_of r ''response_text'' = Some (PStr ''Clear sky in Tokyo today.'') \<and>
            map_of r ''error'' = Some PNone"
    using generate_travel_response_nonfatal_llm
             [of None env0 "''t1''" "''uploads/t1.json''" world_ready,
              THEN conjunct2, THEN conjunct2, THEN conjunct2, THEN conjunct2,
              THEN conjunct2, rule_format, OF conjI [OF k0 conjI [OF _ i]]]
    by (simp add: g0)
  show ?thesis
    using a b k i c d by blast
qed

section \<open>The Travel Agent\<close>

lemma nlu_location:
  "seq (py_get (PDict (fst (nlu_parser_travel env query w))) ''entities'' (PDict []))
       (\<lambda>en. py_get en ''location'' PNone)
   = Inr (opt_str (fst (extract_location env query w)))"
  by (simp add: nlu_parser_travel_def dict_get_def split: prod.splits)

text \<open>
  Claim C4 says that the Weather Fetcher is invoked if and only if the extracted
  \<open>nlu.entities.location\<close> is non-null. The code tests \<open>if location\<close>, which is false for
  the empty string as well. When the geocoder answers with an entry that has no name
  (\<open>get_candidate_locations\<close> provides for it with \<open>g.get('name','')\<close>), the candidate is
  \<open>", US"\<close>; when the fuzzy matcher accepts it, the part before the comma is the empty
  string. The location is then \<open>""\<close>, which is not null, and yet the agent returns
  \<open>no_location_extracted\<close> without any request of the Weather Fetcher.
\<close>

theorem travel_weather_agent_skips_empty_location:
  "travel_weather_agent env_nameless ''weather in US'' world0 =
     (Inr [(''nlu'', PDict [
              (''intent'', PStr ''get_weather_travel_advice''),
              (''entities'', PDict [(''location'', PStr ''''), (''date'', PNone)]),
              (''slots'', PDict [(''theme'', PStr ''travel'')]),
              (''dialog_metadata'', PDict [(''original_query'', PStr ''weather in US''),
                                           (''language'', PStr ''en''),
                                           (''timestamp'', PStr ''1970-01-01T00:00:00+00:00'')])]),
           (''weather'', PDict [(''error'', PStr ''no_location_extracted'')])],
      emit EvClock (emit (EvHttpGeo ''US'' 5) world0))"
  by (simp add: travel_weather_agent_def nlu_parser_travel_def extract_location_def
        raw_location_def ner_location_def get_candidate_locations_def candidate_string_def
        parse_date_def read_clock_def env_nameless_def env0_def
        dict_get_def py_str_def opt_str_def error_dict_def split_comma_first_def
        strip_eval str_lower_def lower_char_def startswith_def
        Let_def)

text \<open>
  Claim C4, amended. For every query the Travel Agent runs the Entity Extractor: the
  \<open>nlu\<close> it returns is the extractor's result, and \<open>nlu.entities.location\<close> is null or a
  string. It invokes the Weather Fetcher if and only if that location is non-null and
  non-empty: when the location is null or the empty string it returns the extractor's
  \<open>nlu\<close> with \<open>weather\<close> equal to exactly \<open>{error: "no_location_extracted"}\<close>, in the world
  the extractor left (no request of the Weather Fetcher); when the location is a
  non-empty string, its result and its effects are those of the Weather Fetcher called
  with that location after the extractor.
\<close>

theorem travel_weather_agent_gate:
  "((seq (py_get (PDict (fst (nlu_parser_travel env query w))) ''entities'' (PDict []))
         (\<lambda>en. py_get en ''location'' PNone) = Inr PNone \<or>
     seq (py_get (PDict (fst (nlu_parser_travel env query w))) ''entities'' (PDict []))
         (\<lambda>en. py_get en ''location'' PNone) = Inr (PStr '''')) \<longrightarrow>
      travel_weather_agent env query w =
        (Inr [(''nlu'', PDict (fst (nlu_parser_travel env query w))),
              (''weather'', PDict [(''error'', PStr ''no_location_extracted'')])],
         snd (nlu_parser_travel env query w))) \<and>
   (\<forall>s. seq (py_get (PDict (fst (nlu_parser_travel env query w))) ''entities'' (PDict []))
             (\<lambda>en. py_get en ''location'' PNone) = Inr (PStr s) \<and> s \<noteq> [] \<longrightarrow>
      travel_weather_agent env query w =
        (case fetch_weather env (PStr s) (snd (nlu_parser_travel env query w)) of
           (Inl e, w2) \<Rightarrow> (Inl e, w2)
         | (Inr weather, w2) \<Rightarrow>
             (Inr [(''nlu'', PDict (fst (nlu_parser_travel env query w))),
                   (''weather'', weather)], w2))) \<and>
   (seq (py_get (PDict (fst (nlu_parser_travel env query w))) ''entities'' (PDict []))
        (\<lambda>en. py_get en ''location'' PNone) = Inr PNone \<or>
    (\<exists>s. seq (py_get (PDict (fst (nlu_parser_travel env query w))) ''entities'' (PDict []))
             (\<lambda>en. py_get en ''location'' PNone) = Inr (PStr s)))"
proof -
  obtain nlu w1 where n: "nlu_parser_travel env query w = (nlu, w1)"
    by (cases "nlu_parser_travel env query w")
  have l: "seq (py_get (PDict nlu) ''entities'' (PDict [])) (\<lambda>en. py_get en ''location'' PNone)
             = Inr (opt_str (fst (extract_location env query w)))"
    using nlu_location [of env query w] n by simp
  show ?thesis
    unfolding nlu_location
    using n l
    by (cases "fst (extract_location env query w)")
       (auto simp: travel_weather_agent_def opt_str_def error_dict_def
             split: prod.splits sum.splits)
qed

theorem travel_weather_agent_gate_witness:
  "seq (py_get (PDict (fst (nlu_parser_travel env0 ''hello'' world0))) ''entities'' (PDict []))
       (\<lambda>en. py_get en ''location'' PNone) = Inr PNone \<and>
   travel_weather_agent env0 ''hello'' world0 =
     (Inr [(''nlu'', PDict (fst (nlu_parser_travel env0 ''hello'' world0))),
           (''weather'', PDict [(''error'', PStr ''no_location_extracted'')])],
      snd (nlu_parser_travel env0 ''hello'' world0)) \<and>
   seq (py_get (PDict (fst (nlu_parser_travel env0 ''weather in Tokyo today'' world0)))
          ''entities'' (PDict []))
       (\<lambda>en. py_get en ''location'' PNone) = Inr (PStr ''Tokyo'') \<and>
   travel_weather_agent env0 ''weather in Tokyo today'' world0 =
     (case fetch_weather env0 (PStr ''Tokyo'')
             (snd (nlu_parser_travel env0 ''weather in Tokyo today'' world0)) of
        (Inl e, w2) \<Rightarrow> (Inl e, w2)
      | (Inr weather, w2) \<Rightarrow>
          (Inr [(''nlu'', PDict (fst (nlu_parser_travel env0 ''weather in Tokyo today'' world0))),
                (''weather'', weather)], w2))"
proof -
  have e1: "fst (extract_location env0 ''hello'' world0) = None"
    by (simp add: extract_location_def raw_location_def ner_location_def env0_def startswith_def)
  have e2: "fst (extract_location env0 ''weather in Tokyo today'' world0) = Some ''Tokyo''"
    by (simp add: extract_location_def raw_location_def ner_location_def
          get_candidate_locations_def candidate_string_def env0_def dict_get_def py_str_def
          split_comma_first_def startswith_def strip_eval Let_def)
  have l1: "seq (py_get (PDict (fst (nlu_parser_travel env0 ''hello'' world0))) ''entities''
                  (PDict []))
              (\<lambda>en. py_get en ''location'' PNone) = Inr PNone"
    unfolding nlu_location e1 by (simp add: opt_str_def)
  have l2: "seq (py_get (PDict (fst (nlu_parser_travel env0 ''weather in Tokyo today'' world0)))
                  ''entities'' (PDict []))
              (\<lambda>en. py_get en ''location'' PNone) = Inr (PStr ''Tokyo'')"
    unfolding nlu_location e2 by (simp add: opt_str_def)
  have n: "''Tokyo'' \<noteq> []"
    by simp
  note a = travel_weather_agent_gate [of env0 "''hello''" world0,
             THEN conjunct1, rule_format, OF disjI1 [OF l1]]
  note b = travel_weather_agent_gate [of env0 "''weather in Tokyo today''" world0,
             THEN conjunct2, THEN conjunct1, rule_format, OF conjI [OF l2 n]]
  show ?thesis
    using l1 a l2 b by blast
qed

section \<open>The Weather Fetcher's guards\<close>

text \<open>
  Claim C5. The Weather Fetcher called with a null or an empty location returns exactly
  \<open>{error: "No location provided"}\<close>; called with a non-empty location while the
  weather provider's API key is absent it returns exactly
  \<open>{error: "OPENWEATHER_API_KEY not set"}\<close>. In both cases the result is a value (nothing
  is raised) and the world comes back as it was given: no event, hence no external
  call, has been added.
\<close>

theorem fetch_weather_guards:
  "((location = PNone \<or> location = PStr '''') \<longrightarrow>
      fetch_weather env location w = (Inr (PDict [(''error'', PStr ''No location provided'')]), w)) \<and>
   (s \<noteq> [] \<and> OPENWEATHER_API_KEY env = None \<longrightarrow>
      fetch_weather env (PStr s) w =
        (Inr (PDict [(''error'', PStr ''OPENWEATHER_API_KEY not set'')]), w))"
  by (auto simp: fetch_weather_def error_dict_def)

theorem fetch_weather_guards_witness:
  "fetch_weather env0 PNone world0 =
     (Inr (PDict [(''error'', PStr ''No location provided'')]), world0) \<and>
   fetch_weather (env0\<lparr>OPENWEATHER_API_KEY := None\<rparr>) (PStr ''Tokyo'') world0 =
     (Inr (PDict [(''error'', PStr ''OPENWEATHER_API_KEY not set'')]), world0)"
  using fetch_weather_guards [of PNone env0 world0 "''Tokyo''"]
        fetch_weather_guards [of PNone "env0\<lparr>OPENWEATHER_API_KEY := None\<rparr>" world0 "''Tokyo''"]
  by simp

section \<open>Translation of a Japanese transcript (C6)\<close>

text \<open>
  Claim C6 says that a transcript whose detected language is Japanese is translated,
  and that a failing translation leaves \<open>text_en\<close> null with a \<open>translation_failed\<close>
  warning. The guard of line 188 is \<open>if english_text and det.lower().startswith("ja")\<close>:
  an empty transcript is never translated. Here the recogniser reports Japanese speech
  with an empty transcript and the translator has no credentials, so that a translation
  would raise; the translation step calls nothing, \<open>text_en\<close> is the empty string, not
  null, and the record the pipeline returns has no warning.
\<close>

theorem empty_japanese_transcript_untranslated:
  "stt_step env_silent_ja ''t1'' [''en-US'', ''ja-JP''] world_audio = (Inr silent_record, world_heard) \<and>
   map_of silent_record ''detected_language'' = Some (PStr ''ja-JP'') \<and>
   translate_to_english env_silent_ja (PStr '''') (Some ''ja'') world_heard =
     (Inl (Exn RuntimeError
        ''Azure Translator credentials not set (AZURE_TRANSLATOR_KEY / AZURE_TRANSLATOR_REGION)''),
      world_heard) \<and>
   translate_step env_silent_ja silent_record world_heard =
     (Inr (silent_record @ [(''text_en'', PStr '''')], PStr ''''), world_heard) \<and>
   fst (process_trace env_silent_ja ''t1'' [''en-US'', ''ja-JP''] world_audio) =
     Inr (silent_record @
       [(''text_en'', PStr ''''), (''text_file'', PStr ''uploads/t1.txt''),
        (''agent_raw'', PDict
          [(''nlu'', PDict
             [(''intent'', PStr ''get_weather_travel_advice''),
              (''entities'', PDict [(''location'', PNone), (''date'', PNone)]),
              (''slots'', PDict [(''theme'', PStr ''travel'')]),
              (''dialog_metadata'', PDict
                 [(''original_query'', PStr ''''), (''language'', PStr ''en''),
                  (''timestamp'', PStr ''1970-01-01T00:00:00+00:00'')])]),
           (''weather'', PDict [(''error'', PStr ''no_location_extracted'')])]),
        (''nlu'', PDict
           [(''intent'', PStr ''get_weather_travel_advice''),
            (''entities'', PDict [(''location'', PNone), (''date'', PNone)]),
            (''slots'', PDict [(''theme'', PStr ''travel'')]),
            (''dialog_metadata'', PDict
               [(''original_query'', PStr ''''), (''language'', PStr ''en''),
                (''timestamp'', PStr ''1970-01-01T00:00:00+00:00'')])]),
        (''weather'', PDict [(''error'', PStr ''no_location_extracted'')])])"
proof -
  have a: "stt_step env_silent_ja ''t1'' [''en-US'', ''ja-JP''] world_audio =
             (Inr silent_record, world_heard)"
    by (simp add: run_eval envs silent_record_def)
  have b: "map_of silent_record ''detected_language'' = Some (PStr ''ja-JP'')"
    by (simp add: silent_record_def)
  have c: "translate_to_english env_silent_ja (PStr '''') (Some ''ja'') world_heard =
     (Inl (Exn RuntimeError
        ''Azure Translator credentials not set (AZURE_TRANSLATOR_KEY / AZURE_TRANSLATOR_REGION)''),
      world_heard)"
    by (simp add: translate_to_english_def envs)
  have d: "translate_step env_silent_ja silent_record world_heard =
     (Inr (silent_record @ [(''text_en'', PStr '''')], PStr ''''), world_heard)"
    by (simp add: translate_step_def dict_get_def py_or_def silent_record_def Let_def)
  have e: "fst (process_trace env_silent_ja ''t1'' [''en-US'', ''ja-JP''] world_audio) =
     Inr (silent_record @
       [(''text_en'', PStr ''''), (''text_file'', PStr ''uploads/t1.txt''),
        (''agent_raw'', PDict
          [(''nlu'', PDict
             [(''intent'', PStr ''get_weather_travel_advice''),
              (''entities'', PDict [(''location'', PNone), (''date'', PNone)]),
              (''slots'', PDict [(''theme'', PStr ''travel'')]),
              (''dialog_metadata'', PDict
                 [(''original_query'', PStr ''''), (''language'', PStr ''en''),
                  (''timestamp'', PStr ''1970-01-01T00:00:00+00:00'')])]),
           (''weather'', PDict [(''error'', PStr ''no_location_extracted'')])]),
        (''nlu'', PDict
           [(''intent'', PStr ''get_weather_travel_advice''),
            (''entities'', PDict [(''location'', PNone), (''date'', PNone)]),
            (''slots'', PDict [(''theme'', PStr ''travel'')]),
            (''dialog_metadata'', PDict
               [(''original_query'', PStr ''''), (''language'', PStr ''en''),
                (''timestamp'', PStr ''1970-01-01T00:00:00+00:00'')])]),
        (''weather'', PDict [(''error'', PStr ''no_location_extracted'')])])"
    by (simp add: run_eval envs silent_record_def)
  show ?thesis using a b c d e by blast
qed

text \<open>
  Claim C6, amended. Let the recogniser have returned the record \<open>result\<close> with
  detected language \<open>det\<close> (the empty string when none was detected). Its transcript is a
  string \<open>t\<close> and it has no warnings. If \<open>t\<close> is non-empty and \<open>det\<close>, lowercased, starts
  with \<open>ja\<close>, the transcript is translated from Japanese: when the translation returns
  \<open>tr\<close>, the pipeline continues with \<open>text_en = tr\<close> and with \<open>tr\<close> as the text of the later
  stages, and the record it returns has \<open>text_en = tr\<close>; when the translation raises \<open>e\<close>,
  the pipeline continues with \<open>text_en\<close> null, the warning \<open>translation_failed:<e>\<close> and the
  original transcript as the text of the later stages (the text file and the query of
  the agent), and the record it returns has \<open>text_en\<close> null and that warning first. If
  \<open>t\<close> is empty or \<open>det\<close> does not start with \<open>ja\<close>, nothing is translated and \<open>text_en\<close> is
  the original transcript.
\<close>

theorem transcript_translation:
  assumes "stt_step env tid langs w = (Inr result, w1)"
      and "py_or (dict_get result ''detected_language'' PNone) (PStr '''') = PStr det"
  shows "\<exists>t. dict_get result ''text'' PNone = PStr t \<and> map_of result ''warnings'' = None \<and>
     (t \<noteq> [] \<and> startswith (str_lower det) ''ja'' \<longrightarrow>
        (\<forall>tr w2. translate_to_english env (PStr t) (Some ''ja'') w1 = (Inr tr, w2) \<longrightarrow>
            process_trace env tid langs w =
              finish_trace env tid (AList.update ''text_en'' (PStr tr) result) (PStr tr) w2 \<and>
            (\<forall>r' w3. process_trace env tid langs w = (Inr r', w3) \<longrightarrow>
               map_of r' ''text'' = Some (PStr t) \<and> map_of r' ''text_en'' = Some (PStr tr))) \<and>
        (\<forall>e w2. translate_to_english env (PStr t) (Some ''ja'') w1 = (Inl e, w2) \<longrightarrow>
            process_trace env tid langs w =
              finish_trace env tid
                (AList.update ''warnings'' (PList [PStr (''translation_failed:'' @ exn_str e)])
                   (AList.update ''text_en'' PNone result)) (PStr t) w2 \<and>
            (\<forall>tf. text_for_agent (AList.update ''text_file'' tf
                (AList.update ''warnings'' (PList [PStr (''translation_failed:'' @ exn_str e)])
                   (AList.update ''text_en'' PNone result))) = PStr t) \<and>
            (\<forall>r' w3. process_trace env tid langs w = (Inr r', w3) \<longrightarrow>
               map_of r' ''text'' = Some (PStr t) \<and> map_of r' ''text_en'' = Some PNone \<and>
               take 1 (warnings_of r') = [PStr (''translation_failed:'' @ exn_str e)]))) \<and>
     (t = [] \<or> \<not> startswith (str_lower det) ''ja'' \<longrightarrow>
        process_trace env tid langs w =
          finish_trace env tid (AList.update ''text_en'' (PStr t) result) (PStr t) w1 \<and>
        (\<forall>r' w3. process_trace env tid langs w = (Inr r', w3) \<longrightarrow>
           map_of r' ''text'' = Some (PStr t) \<and> map_of r' ''text_en'' = Some (PStr t)))"
proof -
  obtain t where t: "dict_get result ''text'' PNone = PStr t"
    using stt_step_record [OF assms(1)] by blast
  have nw: "map_of result ''warnings'' = None"
    using stt_step_fresh [OF assms(1)] by blast
  have mt: "map_of result ''text'' = Some (PStr t)"
    using t by (simp add: dict_get_def split: option.splits)
  have ja: "t \<noteq> [] \<Longrightarrow> startswith (str_lower det) ''ja'' \<Longrightarrow>
        translate_step env result w1 =
          (case translate_to_english env (PStr t) (Some ''ja'') w1 of
             (Inr translated, w2) \<Rightarrow>
               (Inr (AList.update ''text_en'' (PStr translated) result, PStr translated), w2)
           | (Inl e, w2) \<Rightarrow>
               (Inr (AList.update ''warnings'' (PList [PStr (''translation_failed:'' @ exn_str e)])
                       (AList.update ''text_en'' PNone result), PStr t), w2))"
    using t assms(2) nw
    by (auto simp: translate_step_def Let_def append_warning_def upd
             split: prod.splits sum.splits)
  have nj: "t = [] \<or> \<not> startswith (str_lower det) ''ja'' \<Longrightarrow>
        translate_step env result w1 = (Inr (AList.update ''text_en'' (PStr t) result, PStr t), w1)"
    using t assms(2) by (auto simp: translate_step_def Let_def)
  have tfa: "t \<noteq> [] \<Longrightarrow> text_for_agent (AList.update ''text_file'' tf
                (AList.update ''warnings'' ws (AList.update ''text_en'' PNone result))) = PStr t"
    for tf ws
    using t by (simp add: text_for_agent_def dict_get_def py_or_def upd)
  have keep: "map_of r' ''text'' = Some (PStr t) \<and> map_of r' ''text_en'' = map_of r1 ''text_en'' \<and>
              take (length (warnings_of r1)) (warnings_of r') = warnings_of r1"
    if ts: "translate_step env result w1 = (Inr (r1, et), w2)"
      and pt: "process_trace env tid langs w = (Inr r', w3)" for r1 et w2 r' w3
  proof -
    note pr = preservesD [OF process_trace_final [OF assms(1) ts pt]]
    note tr = translate_step_record [OF ts nw]
    have a: "map_of r1 ''text'' = Some (PStr t)" using tr mt by simp
    have b: "map_of r1 ''text_en'' \<noteq> None" using tr by simp
    show ?thesis
      using pr(1) [of "''text''"] pr(1) [of "''text_en''"] pr(2) a b by simp
  qed
  have B1: "process_trace env tid langs w =
              finish_trace env tid (AList.update ''text_en'' (PStr tr) result) (PStr tr) w2 \<and>
            (\<forall>r' w3. process_trace env tid langs w = (Inr r', w3) \<longrightarrow>
               map_of r' ''text'' = Some (PStr t) \<and> map_of r' ''text_en'' = Some (PStr tr))"
    if h: "t \<noteq> []" "startswith (str_lower det) ''ja''"
      "translate_to_english env (PStr t) (Some ''ja'') w1 = (Inr tr, w2)" for tr w2
  proof -
    have ts: "translate_step env result w1 =
                (Inr (AList.update ''text_en'' (PStr tr) result, PStr tr), w2)"
      using ja [OF h(1) h(2)] h(3) by simp
    have "process_trace env tid langs w =
            finish_trace env tid (AList.update ''text_en'' (PStr tr) result) (PStr tr) w2"
      using assms(1) ts by (simp add: process_trace_def)
    then show ?thesis
      using keep [OF ts] by (simp add: upd)
  qed
  have B2: "process_trace env tid langs w =
              finish_trace env tid
                (AList.update ''warnings'' (PList [PStr (''translation_failed:'' @ exn_str e)])
                   (AList.update ''text_en'' PNone result)) (PStr t) w2 \<and>
            (\<forall>tf. text_for_agent (AList.update ''text_file'' tf
                (AList.update ''warnings'' (PList [PStr (''translation_failed:'' @ exn_str e)])
                   (AList.update ''text_en'' PNone result))) = PStr t) \<and>
            (\<forall>r' w3. process_trace env tid langs w = (Inr r', w3) \<longrightarrow>
               map_of r' ''text'' = Some (PStr t) \<and> map_of r' ''text_en'' = Some PNone \<and>
               take 1 (warnings_of r') = [PStr (''translation_failed:'' @ exn_str e)])"
    if h: "t \<noteq> []" "startswith (str_lower det) ''ja''"
      "translate_to_english env (PStr t) (Some ''ja'') w1 = (Inl e, w2)" for e w2
  proof -
    let ?r = "AList.update ''warnings'' (PList [PStr (''translation_failed:'' @ exn_str e)])
                (AList.update ''text_en'' PNone result)"
    have ts: "translate_step env result w1 = (Inr (?r, PStr t), w2)"
      using ja [OF h(1) h(2)] h(3) by simp
    have p: "process_trace env tid langs w = finish_trace env tid ?r (PStr t) w2"
      using assms(1) ts by (simp add: process_trace_def)
    have wr: "warnings_of ?r = [PStr (''translation_failed:'' @ exn_str e)]"
      by (simp add: warnings_of_def upd)
    have "map_of r' ''text'' = Some (PStr t) \<and> map_of r' ''text_en'' = Some PNone \<and>
          take 1 (warnings_of r') = [PStr (''translation_failed:'' @ exn_str e)]"
      if "process_trace env tid langs w = (Inr r', w3)" for r' w3
      using keep [OF ts that] wr by (simp add: upd)
    then show ?thesis
      using p tfa [OF h(1)] by blast
  qed
  have B3: "process_trace env tid langs w =
              finish_trace env tid (AList.update ''text_en'' (PStr t) result) (PStr t) w1 \<and>
            (\<forall>r' w3. process_trace env tid langs w = (Inr r', w3) \<longrightarrow>
               map_of r' ''text'' = Some (PStr t) \<and> map_of r' ''text_en'' = Some (PStr t))"
    if h: "t = [] \<or> \<not> startswith (str_lower det) ''ja''"
  proof -
    have ts: "translate_step env result w1 =
                (Inr (AList.update ''text_en'' (PStr t) result, PStr t), w1)"
      using nj [OF h] .
    have "process_trace env tid langs w =
            finish_trace env tid (AList.update ''text_en'' (PStr t) result) (PStr t) w1"
      using assms(1) ts by (simp add: process_trace_def)
    then show ?thesis
      using keep [OF ts] by (simp add: upd)
  qed
  show ?thesis
    apply (rule exI [of _ t])
    using t nw B1 B2 B3 by blast
qed

text \<open>
  Three runs of trace \<open>t1\<close>: Japanese speech (the recogniser reports \<open>JA-jp\<close>) with a
  translator that answers, the same with a translator without credentials, and English
  speech.
\<close>

theorem transcript_translation_witness:
  "stt_step env_ja ''t1'' [''en-US'', ''ja-JP''] world_audio = (Inr ja_record, world_heard) \<and>
   startswith (str_lower ''JA-jp'') ''ja'' \<and>
   process_trace env_ja ''t1'' [''en-US'', ''ja-JP''] world_audio =
     finish_trace env_ja ''t1'' (ja_record @ [(''text_en'', PStr ''weather in Tokyo today'')])
       (PStr ''weather in Tokyo today'') (emit (EvTranslate (PStr ''Tokyo no tenki wa'')) world_heard) \<and>
   (\<exists>r' w3. process_trace env_ja ''t1'' [''en-US'', ''ja-JP''] world_audio = (Inr r', w3) \<and>
      map_of r' ''text'' = Some (PStr ''Tokyo no tenki wa'') \<and>
      map_of r' ''text_en'' = Some (PStr ''weather in Tokyo today'') \<and>
      warnings_of r' = []) \<and>
   stt_step env_ja_untranslated ''t1'' [''en-US'', ''ja-JP''] world_audio =
     (Inr ja_record, world_heard) \<and>
   process_trace env_ja_untranslated ''t1'' [''en-US'', ''ja-JP''] world_audio =
     finish_trace env_ja_untranslated ''t1''
       (ja_record @ [(''text_en'', PNone),
          (''warnings'', PList [PStr (''translation_failed:Azure Translator credentials not set '' @
             ''(AZURE_TRANSLATOR_KEY / AZURE_TRANSLATOR_REGION)'')])])
       (PStr ''Tokyo no tenki wa'') world_heard \<and>
   (\<exists>r' w3. process_trace env_ja_untranslated ''t1'' [''en-US'', ''ja-JP''] world_audio =
        (Inr r', w3) \<and>
      map_of r' ''text'' = Some (PStr ''Tokyo no tenki wa'') \<and>
      map_of r' ''text_en'' = Some PNone \<and>
      warnings_of r' = [PStr (''translation_failed:Azure Translator credentials not set '' @
             ''(AZURE_TRANSLATOR_KEY / AZURE_TRANSLATOR_REGION)'')] \<and>
      files w3 ''uploads/t1.txt'' = Some (PStr ''Tokyo no tenki wa'')) \<and>
   stt_step env0 ''t1'' [''en-US'', ''ja-JP''] world_audio =
     (Inr (butlast first_checkpoint), world_heard) \<and>
   process_trace env0 ''t1'' [''en-US'', ''ja-JP''] world_audio =
     finish_trace env0 ''t1'' first_checkpoint (PStr ''weather in Tokyo today'') world_heard"
proof -
  let ?L = "[''en-US'', ''ja-JP'']"
  let ?e = "Exn RuntimeError
        ''Azure Translator credentials not set (AZURE_TRANSLATOR_KEY / AZURE_TRANSLATOR_REGION)''"
  have s1: "stt_step env_ja ''t1'' ?L world_audio = (Inr ja_record, world_heard)"
    by (simp add: run_eval envs ja_record_def)
  have s2: "stt_step env_ja_untranslated ''t1'' ?L world_audio = (Inr ja_record, world_heard)"
    by (simp add: run_eval envs ja_record_def)
  have s3: "stt_step env0 ''t1'' ?L world_audio = (Inr (butlast first_checkpoint), world_heard)"
    by (simp add: run_eval envs first_checkpoint_def)
  have d1: "py_or (dict_get ja_record ''detected_language'' PNone) (PStr '''') = PStr ''JA-jp''"
    by (simp add: py_or_def dict_get_def ja_record_def)
  have d3: "py_or (dict_get (butlast first_checkpoint) ''detected_language'' PNone) (PStr '''') =
              PStr ''en-US''"
    by (simp add: py_or_def dict_get_def first_checkpoint_def)
  have ja: "startswith (str_lower ''JA-jp'') ''ja''"
    by (simp add: startswith_def str_lower_def lower_char_def)
  have en: "\<not> startswith (str_lower ''en-US'') ''ja''"
    by (simp add: startswith_def str_lower_def lower_char_def)
  have t1: "dict_get ja_record ''text'' PNone = PStr ''Tokyo no tenki wa''"
    by (simp add: dict_get_def ja_record_def)
  have t3: "dict_get (butlast first_checkpoint) ''text'' PNone = PStr ''weather in Tokyo today''"
    by (simp add: dict_get_def first_checkpoint_def)
  have tr1: "translate_to_english env_ja (PStr ''Tokyo no tenki wa'') (Some ''ja'') world_heard =
     (Inr ''weather in Tokyo today'', emit (EvTranslate (PStr ''Tokyo no tenki wa'')) world_heard)"
    by (simp add: translate_to_english_def envs)
  have tr2: "translate_to_english env_ja_untranslated (PStr ''Tokyo no tenki wa'') (Some ''ja'')
               world_heard = (Inl ?e, world_heard)"
    by (simp add: translate_to_english_def envs)
  have u1: "AList.update ''text_en'' (PStr ''weather in Tokyo today'') ja_record =
              ja_record @ [(''text_en'', PStr ''weather in Tokyo today'')]"
    by (simp add: ja_record_def)
  have u2: "AList.update ''warnings'' (PList [PStr (''translation_failed:'' @ exn_str ?e)])
              (AList.update ''text_en'' PNone ja_record) =
            ja_record @ [(''text_en'', PNone),
              (''warnings'', PList [PStr (''translation_failed:Azure Translator credentials not set '' @
                 ''(AZURE_TRANSLATOR_KEY / AZURE_TRANSLATOR_REGION)'')])]"
    by (simp add: ja_record_def)
  have u3: "AList.update ''text_en'' (PStr ''weather in Tokyo today'') (butlast first_checkpoint) =
              first_checkpoint"
    by (simp add: first_checkpoint_def)
  have r1: "\<exists>r' w3. process_trace env_ja ''t1'' ?L world_audio = (Inr r', w3) \<and>
              warnings_of r' = []"
    by (simp add: run_eval strip_eval envs tokyo_weather_def warnings_of_def)
  have r2: "\<exists>r' w3. process_trace env_ja_untranslated ''t1'' ?L world_audio = (Inr r', w3) \<and>
              warnings_of r' = [PStr (''translation_failed:Azure Translator credentials not set '' @
                 ''(AZURE_TRANSLATOR_KEY / AZURE_TRANSLATOR_REGION)'')] \<and>
              files w3 ''uploads/t1.txt'' = Some (PStr ''Tokyo no tenki wa'')"
    by (simp add: run_eval strip_eval envs tokyo_weather_def warnings_of_def)
  from transcript_translation [OF s1 d1] t1 ja tr1
  have p1: "process_trace env_ja ''t1'' ?L world_audio =
     finish_trace env_ja ''t1'' (AList.update ''text_en'' (PStr ''weather in Tokyo today'') ja_record)
       (PStr ''weather in Tokyo today'') (emit (EvTranslate (PStr ''Tokyo no tenki wa'')) world_heard) \<and>
     (\<forall>r' w3. process_trace env_ja ''t1'' ?L world_audio = (Inr r', w3) \<longrightarrow>
        map_of r' ''text'' = Some (PStr ''Tokyo no tenki wa'') \<and>
        map_of r' ''text_en'' = Some (PStr ''weather in Tokyo today''))"
    by auto
  from transcript_translation [OF s2 d1] t1 ja tr2
  have p2: "process_trace env_ja_untranslated ''t1'' ?L world_audio =
     finish_trace env_ja_untranslated ''t1''
       (AList.update ''warnings'' (PList [PStr (''translation_failed:'' @ exn_str ?e)])
          (AList.update ''text_en'' PNone ja_record))
       (PStr ''Tokyo no tenki wa'') world_heard \<and>
     (\<forall>r' w3. process_trace env_ja_untranslated ''t1'' ?L world_audio = (Inr r', w3) \<longrightarrow>
        map_of r' ''text'' = Some (PStr ''Tokyo no tenki wa'') \<and>
        map_of r' ''text_en'' = Some PNone)"
    by auto
  from transcript_translation [OF s3 d3] t3 en
  have p3: "process_trace env0 ''t1'' ?L world_audio =
     finish_trace env0 ''t1''
       (AList.update ''text_en'' (PStr ''weather in Tokyo today'') (butlast first_checkpoint))
       (PStr ''weather in Tokyo today'') world_heard"
    by auto
  have f1: "\<exists>r' w3. process_trace env_ja ''t1'' ?L world_audio = (Inr r', w3) \<and>
      map_of r' ''text'' = Some (PStr ''Tokyo no tenki wa'') \<and>
      map_of r' ''text_en'' = Some (PStr ''weather in Tokyo today'') \<and>
      warnings_of r' = []"
    using r1 conjunct2 [OF p1] by blast
  have f2: "\<exists>r' w3. process_trace env_ja_untranslated ''t1'' ?L world_audio = (Inr r', w3) \<and>
      map_of r' ''text'' = Some (PStr ''Tokyo no tenki wa'') \<and>
      map_of r' ''text_en'' = Some PNone \<and>
      warnings_of r' = [PStr (''translation_failed:Azure Translator credentials not set '' @
             ''(AZURE_TRANSLATOR_KEY / AZURE_TRANSLATOR_REGION)'')] \<and>
      files w3 ''uploads/t1.txt'' = Some (PStr ''Tokyo no tenki wa'')"
    using r2 conjunct2 [OF p2] by blast
  show ?thesis
    using s1 ja conjunct1 [OF p1, unfolded u1] f1 s2 conjunct1 [OF p2, unfolded u2] f2
      s3 p3 [unfolded u3] by blast
qed

section \<open>The Entity Extractor: validating the candidate location\<close>

lemma candidate_strings_dicts:
  "candidate_strings env (map PDict ds) =
     Inr (map (\<lambda>d. py_str (py_render env) (dict_get d ''name'' (PStr '''')) @ '', '' @
                    py_str (py_render env) (dict_get d ''country'' (PStr ''''))) ds)"
  by (induction ds) (simp_all add: candidate_string_def)

lemma split_comma_first_city:
  "CHR '','' \<notin> set n \<Longrightarrow> split_comma_first (n @ '', '' @ cc) = n"
  by (simp add: split_comma_first_def takeWhile_append)

text \<open>
  Claim C7. Whenever steps 1 and 2 of the Entity Extractor have found a candidate
  location \<open>loc\<close> (a non-empty string), \<open>extract_location\<close> makes exactly one request to
  the geocoding service, for \<open>loc\<close> with limit 5. Every entry of the answer gives one
  candidate \<open>"name, country"\<close>; a transport failure gives no candidate. The raw candidate
  is matched against them by \<open>extractOne\<close> with cutoff 70: on a match the result is the
  part of the matched candidate before the comma, which is the city name; with no match,
  or with no candidates at all, the result is \<open>loc\<close> itself, unmodified.
\<close>

theorem extract_location_validation:
  assumes "raw_location env query = Some loc" and "loc \<noteq> []"
  shows "snd (extract_location env query w) = emit (EvHttpGeo loc 5) w \<and>
         (\<forall>ds. http_geo env (length (events w)) loc 5 (OPENWEATHER_API_KEY env) =
                 Inr (PList (map PDict ds)) \<longrightarrow>
            fst (get_candidate_locations env loc w) =
              map (\<lambda>d. py_str (py_render env) (dict_get d ''name'' (PStr '''')) @ '', '' @
                       py_str (py_render env) (dict_get d ''country'' (PStr ''''))) ds) \<and>
         (\<forall>e. http_geo env (length (events w)) loc 5 (OPENWEATHER_API_KEY env) = Inl e \<longrightarrow>
            fst (get_candidate_locations env loc w) = []) \<and>
         (\<forall>m. fst (get_candidate_locations env loc w) \<noteq> [] \<and>
              extractOne env loc (fst (get_candidate_locations env loc w)) 70 = Some m \<longrightarrow>
              fst (extract_location env query w) = Some (split_comma_first (fst m))) \<and>
         (fst (get_candidate_locations env loc w) = [] \<or>
          extractOne env loc (fst (get_candidate_locations env loc w)) 70 = None \<longrightarrow>
              fst (extract_location env query w) = Some loc) \<and>
         (\<forall>n cc. CHR '','' \<notin> set n \<longrightarrow> split_comma_first (n @ '', '' @ cc) = n)"
proof (intro conjI allI impI)
  show "snd (extract_location env query w) = emit (EvHttpGeo loc 5) w"
    using assms
    by (simp add: extract_location_def get_candidate_locations_def Let_def
             split: sum.splits option.splits prod.splits)
next
  fix ds
  assume "http_geo env (length (events w)) loc 5 (OPENWEATHER_API_KEY env) =
            Inr (PList (map PDict ds))"
  then show "fst (get_candidate_locations env loc w) =
      map (\<lambda>d. py_str (py_render env) (dict_get d ''name'' (PStr '''')) @ '', '' @
               py_str (py_render env) (dict_get d ''country'' (PStr ''''))) ds"
    by (simp add: get_candidate_locations_def Let_def candidate_strings_dicts)
next
  fix e
  assume "http_geo env (length (events w)) loc 5 (OPENWEATHER_API_KEY env) = Inl e"
  then show "fst (get_candidate_locations env loc w) = []"
    by (simp add: get_candidate_locations_def Let_def)
next
  fix m
  assume "fst (get_candidate_locations env loc w) \<noteq> [] \<and>
          extractOne env loc (fst (get_candidate_locations env loc w)) 70 = Some m"
  then show "fst (extract_location env query w) = Some (split_comma_first (fst m))"
    using assms
    by (cases "get_candidate_locations env loc w") (simp add: extract_location_def Let_def)
next
  assume "fst (get_candidate_locations env loc w) = [] \<or>
          extractOne env loc (fst (get_candidate_locations env loc w)) 70 = None"
  then show "fst (extract_location env query w) = Some loc"
    using assms
    by (cases "get_candidate_locations env loc w") (auto simp: extract_location_def Let_def)
next
  fix n cc
  assume "CHR '','' \<notin> set n"
  then show "split_comma_first (n @ '', '' @ cc) = n"
    by (rule split_comma_first_city)
qed

theorem extract_location_validation_witness:
  "raw_location env0 ''weather in Tokyo today'' = Some ''Tokyo'' \<and>
   fst (get_candidate_locations env0 ''Tokyo'' world0) = [''Tokyo, JP''] \<and>
   extractOne env0 ''Tokyo'' [''Tokyo, JP''] 70 = Some (''Tokyo, JP'', 90, 0) \<and>
   fst (extract_location env0 ''weather in Tokyo today'' world0) = Some ''Tokyo'' \<and>
   snd (extract_location env0 ''weather in Tokyo today'' world0) =
     emit (EvHttpGeo ''Tokyo'' 5) world0"
proof -
  have r: "raw_location env0 ''weather in Tokyo today'' = Some ''Tokyo''"
    by (simp add: raw_location_def ner_location_def env0_def startswith_def
          strip_eval)
  have c: "fst (get_candidate_locations env0 ''Tokyo'' world0) = [''Tokyo, JP'']"
    by (simp add: get_candidate_locations_def candidate_string_def env0_def dict_get_def
          py_str_def Let_def)
  have x: "extractOne env0 ''Tokyo'' [''Tokyo, JP''] 70 = Some (''Tokyo, JP'', 90, 0)"
    by (simp add: env0_def startswith_def)
  have s: "split_comma_first ''Tokyo, JP'' = ''Tokyo''"
    by (simp add: split_comma_first_def)
  note t = extract_location_validation [OF r, of world0]
  show ?thesis
    using t r c x s by simp
qed

section \<open>The Entity Extractor: the date of the query\<close>








section \<open>The Context Builder\<close>

lemma strip_paris_fr:
  "str_strip (str_strip_set '', '' (str_strip ''Paris'' @ '', '' @ str_strip ''FR'')) = ''Paris, FR''"
  by (simp add: strip_eval)

lemma strip_paris_only:
  "str_strip (str_strip_set '', '' (str_strip ''Paris'' @ '', '' @ str_strip '''')) = ''Paris''"
  by (simp add: strip_eval)

text \<open>The same with whitespace around the parts: a space, a tab, a line feed, an
  ideographic space (U+3000) and a no-break space (U+00A0).\<close>

lemma strip_paris_fr_spaced:
  "str_strip (str_strip_set '', ''
     (str_strip ('' Paris'' @ [CHR 0xE3, CHR 0x80, CHR 0x80, CHR 0x09]) @ '', '' @
      str_strip ([CHR 0xC2, CHR 0xA0] @ ''FR'' @ [CHR 0x0A]))) = ''Paris, FR''"
  by (simp add: strip_eval)

lemma strip_paris_nbsp:
  "str_strip (str_strip_set '', ''
     (str_strip ''Paris'' @ '', '' @ str_strip [CHR 0xC2, CHR 0xA0])) = ''Paris''"
  by (simp add: strip_eval)

lemma strip_lyon_fr:
  "str_strip (str_strip_set '', '' (str_strip '' Lyon '' @ '', '' @ str_strip ''FR'')) = ''Lyon, FR''"
  by (simp add: strip_eval)

lemma strip_inner_kept:
  "str_strip (str_strip_set '', ''
     (str_strip ''New  York'' @ '', '' @ str_strip ''US'')) = ''New  York, US''"
  by (simp add: strip_eval)

lemma build_merged_context_wf:
  assumes "py_or (dict_get nd ''dialog_metadata'' (PDict [])) (PDict []) = PDict dm"
      and "py_or (dict_get nd ''entities'' (PDict [])) (PDict []) = PDict en"
      and "py_or (dict_get nd ''slots'' (PDict [])) (PDict []) = PDict sl"
      and "py_or (py_or (dict_get wd ''location'' PNone) (dict_get en ''location'' PNone))
             (PStr '''') = PStr l"
      and "py_or (dict_get wd ''country'' PNone) (PStr '''') = PStr c"
  shows "build_merged_context (PDict nd) (PDict wd) =
           Inr (PDict [
             (''user_query'', py_or (dict_get dm ''original_query'' PNone) (PStr '''')),
             (''intent'', dict_get nd ''intent'' PNone),
             (''location'', PStr (str_strip (str_strip_set '', '' (str_strip l @ '', '' @ str_strip c)))),
             (''date'', dict_get en ''date'' PNone),
             (''theme'', dict_get sl ''theme'' PNone),
             (''weather_data'', PDict wd)])"
  using assms
  by (simp add: build_merged_context_def py_or_else_def Let_def)
     (simp add: py_or_def split: if_splits)

lemma build_merged_context_example:
  assumes "py_or (dict_get nd ''dialog_metadata'' (PDict [])) (PDict []) = PDict dm"
      and "py_or (dict_get nd ''entities'' (PDict [])) (PDict []) = PDict en"
      and "py_or (dict_get nd ''slots'' (PDict [])) (PDict []) = PDict sl"
      and "map_of wd ''location'' = Some (PStr l)" and "l \<noteq> []"
      and "map_of wd ''country'' = Some (PStr c)"
      and "str_strip (str_strip_set '', '' (str_strip l @ '', '' @ str_strip c)) = r"
  shows "\<exists>mc. build_merged_context (PDict nd) (PDict wd) = Inr (PDict mc) \<and>
              map_of mc ''location'' = Some (PStr r)"
proof -
  have l: "py_or (py_or (dict_get wd ''location'' PNone) (dict_get en ''location'' PNone))
             (PStr '''') = PStr l"
    using assms(4,5) by (simp add: py_or_def dict_get_def)
  have c: "py_or (dict_get wd ''country'' PNone) (PStr '''') = PStr c"
    using assms(6) by (simp add: py_or_def dict_get_def)
  show ?thesis
    using build_merged_context_wf [OF assms(1,2,3) l c] assms(7) by simp
qed

text \<open>
  Claim C9. The Context Builder is a function of \<open>(nlu, weather)\<close> alone: it takes no
  world and returns none, so it reads and writes nothing. On well-formed inputs (an NLU
  dict whose \<open>dialog_metadata\<close>, \<open>entities\<close> and \<open>slots\<close> are dicts or empty, a weather
  dict whose location and country are strings or empty) it does not fail, and its
  location string is \<open>"<weather.location or nlu.entities.location>, <weather.country>"\<close>
  (each part stripped of whitespace) with the commas and spaces, then the whitespace, at
  both ends removed. With \<open>weather.location = "Paris"\<close> and \<open>weather.country = "FR"\<close>
  the location is \<open>"Paris, FR"\<close>; with \<open>weather.country = ""\<close> it is \<open>"Paris"\<close>, without
  a dangling comma. The whitespace is Python's: with the location
  \<open>" Paris<U+3000><TAB>"\<close> and the country \<open>"<U+00A0>FR<LF>"\<close> the location is still
  \<open>"Paris, FR"\<close>, with the country \<open>"<U+00A0>"\<close> it is \<open>"Paris"\<close>, whitespace inside a
  name stays, and when the weather has no location the one of the NLU is used.
\<close>

theorem build_merged_context_location:
  assumes "py_or (dict_get nd ''dialog_metadata'' (PDict [])) (PDict []) = PDict dm"
      and "py_or (dict_get nd ''entities'' (PDict [])) (PDict []) = PDict en"
      and "py_or (dict_get nd ''slots'' (PDict [])) (PDict []) = PDict sl"
  shows "(\<forall>wd l c.
            py_or (py_or (dict_get wd ''location'' PNone) (dict_get en ''location'' PNone))
              (PStr '''') = PStr l \<and>
            py_or (dict_get wd ''country'' PNone) (PStr '''') = PStr c \<longrightarrow>
            build_merged_context (PDict nd) (PDict wd) =
              Inr (PDict [
                (''user_query'', py_or (dict_get dm ''original_query'' PNone) (PStr '''')),
                (''intent'', dict_get nd ''intent'' PNone),
                (''location'',
                   PStr (str_strip (str_strip_set '', '' (str_strip l @ '', '' @ str_strip c)))),
                (''date'', dict_get en ''date'' PNone),
                (''theme'', dict_get sl ''theme'' PNone),
                (''weather_data'', PDict wd)])) \<and>
         (\<forall>wd. map_of wd ''location'' = Some (PStr ''Paris'') \<and>
               map_of wd ''country'' = Some (PStr ''FR'') \<longrightarrow>
               (\<exists>mc. build_merged_context (PDict nd) (PDict wd) = Inr (PDict mc) \<and>
                     map_of mc ''location'' = Some (PStr ''Paris, FR''))) \<and>
         (\<forall>wd. map_of wd ''location'' = Some (PStr ''Paris'') \<and>
               map_of wd ''country'' = Some (PStr '''') \<longrightarrow>
               (\<exists>mc. build_merged_context (PDict nd) (PDict wd) = Inr (PDict mc) \<and>
                     map_of mc ''location'' = Some (PStr ''Paris''))) \<and>
         (\<forall>wd. map_of wd ''location'' =
                 Some (PStr ('' Paris'' @ [CHR 0xE3, CHR 0x80, CHR 0x80, CHR 0x09])) \<and>
               map_of wd ''country'' = Some (PStr ([CHR 0xC2, CHR 0xA0] @ ''FR'' @ [CHR 0x0A])) \<longrightarrow>
               (\<exists>mc. build_merged_context (PDict nd) (PDict wd) = Inr (PDict mc) \<and>
                     map_of mc ''location'' = Some (PStr ''Paris, FR''))) \<and>
         (\<forall>wd. map_of wd ''location'' = Some (PStr ''Paris'') \<and>
               map_of wd ''country'' = Some (PStr [CHR 0xC2, CHR 0xA0]) \<longrightarrow>
               (\<exists>mc. build_merged_context (PDict nd) (PDict wd) = Inr (PDict mc) \<and>
                     map_of mc ''location'' = Some (PStr ''Paris''))) \<and>
         (\<forall>wd. map_of wd ''location'' = Some (PStr ''New  York'') \<and>
               map_of wd ''country'' = Some (PStr ''US'') \<longrightarrow>
               (\<exists>mc. build_merged_context (PDict nd) (PDict wd) = Inr (PDict mc) \<and>
                     map_of mc ''location'' = Some (PStr ''New  York, US''))) \<and>
         (\<forall>wd. map_of wd ''location'' = None \<and> map_of en ''location'' = Some (PStr '' Lyon '') \<and>
               map_of wd ''country'' = Some (PStr ''FR'') \<longrightarrow>
               (\<exists>mc. build_merged_context (PDict nd) (PDict wd) = Inr (PDict mc) \<and>
                     map_of mc ''location'' = Some (PStr ''Lyon, FR'')))"
proof (intro conjI allI impI)
  fix wd l c
  assume "py_or (py_or (dict_get wd ''location'' PNone) (dict_get en ''location'' PNone))
            (PStr '''') = PStr l \<and>
          py_or (dict_get wd ''country'' PNone) (PStr '''') = PStr c"
  then show "build_merged_context (PDict nd) (PDict wd) =
      Inr (PDict [
        (''user_query'', py_or (dict_get dm ''original_query'' PNone) (PStr '''')),
        (''intent'', dict_get nd ''intent'' PNone),
        (''location'',
           PStr (str_strip (str_strip_set '', '' (str_strip l @ '', '' @ str_strip c)))),
        (''date'', dict_get en ''date'' PNone),
        (''theme'', dict_get sl ''theme'' PNone),
        (''weather_data'', PDict wd)])"
    using build_merged_context_wf [OF assms] by blast
next
  fix wd :: pydict
  assume "map_of wd ''location'' = Some (PStr ''Paris'') \<and>
          map_of wd ''country'' = Some (PStr ''FR'')"
  then show "\<exists>mc. build_merged_context (PDict nd) (PDict wd) = Inr (PDict mc) \<and>
                  map_of mc ''location'' = Some (PStr ''Paris, FR'')"
    using build_merged_context_example [OF assms _ _ _ strip_paris_fr] by blast
next
  fix wd :: pydict
  assume "map_of wd ''location'' = Some (PStr ''Paris'') \<and>
          map_of wd ''country'' = Some (PStr '''')"
  then show "\<exists>mc. build_merged_context (PDict nd) (PDict wd) = Inr (PDict mc) \<and>
                  map_of mc ''location'' = Some (PStr ''Paris'')"
    using build_merged_context_example [OF assms _ _ _ strip_paris_only] by blast
next
  fix wd :: pydict
  assume "map_of wd ''location'' =
            Some (PStr ('' Paris'' @ [CHR 0xE3, CHR 0x80, CHR 0x80, CHR 0x09])) \<and>
          map_of wd ''country'' = Some (PStr ([CHR 0xC2, CHR 0xA0] @ ''FR'' @ [CHR 0x0A]))"
  then show "\<exists>mc. build_merged_context (PDict nd) (PDict wd) = Inr (PDict mc) \<and>
                  map_of mc ''location'' = Some (PStr ''Paris, FR'')"
    using build_merged_context_example [OF assms _ _ _ strip_paris_fr_spaced] by blast
next
  fix wd :: pydict
  assume "map_of wd ''location'' = Some (PStr ''Paris'') \<and>
          map_of wd ''country'' = Some (PStr [CHR 0xC2, CHR 0xA0])"
  then show "\<exists>mc. build_merged_context (PDict nd) (PDict wd) = Inr (PDict mc) \<and>
                  map_of mc ''location'' = Some (PStr ''Paris'')"
    using build_merged_context_example [OF assms _ _ _ strip_paris_nbsp] by blast
next
  fix wd :: pydict
  assume "map_of wd ''location'' = Some (PStr ''New  York'') \<and>
          map_of wd ''country'' = Some (PStr ''US'')"
  then show "\<exists>mc. build_merged_context (PDict nd) (PDict wd) = Inr (PDict mc) \<and>
                  map_of mc ''location'' = Some (PStr ''New  York, US'')"
    using build_merged_context_example [OF assms _ _ _ strip_inner_kept] by blast
next
  fix wd :: pydict
  assume h: "map_of wd ''location'' = None \<and> map_of en ''location'' = Some (PStr '' Lyon '') \<and>
             map_of wd ''country'' = Some (PStr ''FR'')"
  have l: "py_or (py_or (dict_get wd ''location'' PNone) (dict_get en ''location'' PNone))
             (PStr '''') = PStr '' Lyon ''"
    using h by (simp add: py_or_def dict_get_def)
  have c: "py_or (dict_get wd ''country'' PNone) (PStr '''') = PStr ''FR''"
    using h by (simp add: py_or_def dict_get_def)
  show "\<exists>mc. build_merged_context (PDict nd) (PDict wd) = Inr (PDict mc) \<and>
             map_of mc ''location'' = Some (PStr ''Lyon, FR'')"
    using build_merged_context_wf [OF assms l c, unfolded strip_lyon_fr] by simp
qed

theorem build_merged_context_location_witness:
  "build_merged_context
     (PDict [(''intent'', PStr ''get_weather_travel_advice''),
             (''entities'', PDict [(''location'', PStr ''paris''), (''date'', PNone)])])
     (PDict [(''location'', PStr ('' Paris'' @ [CHR 0xE3, CHR 0x80, CHR 0x80, CHR 0x09])),
             (''country'', PStr ([CHR 0xC2, CHR 0xA0] @ ''FR'' @ [CHR 0x0A]))]) =
   Inr (PDict [
     (''user_query'', PStr ''''),
     (''intent'', PStr ''get_weather_travel_advice''),
     (''location'', PStr ''Paris, FR''),
     (''date'', PNone),
     (''theme'', PNone),
     (''weather_data'',
        PDict [(''location'', PStr ('' Paris'' @ [CHR 0xE3, CHR 0x80, CHR 0x80, CHR 0x09])),
               (''country'', PStr ([CHR 0xC2, CHR 0xA0] @ ''FR'' @ [CHR 0x0A]))])])"
proof -
  let ?nd = "[(''intent'', PStr ''get_weather_travel_advice''),
              (''entities'', PDict [(''location'', PStr ''paris''), (''date'', PNone)])]"
  let ?en = "[(''location'', PStr ''paris''), (''date'', PNone)]"
  let ?l = "'' Paris'' @ [CHR 0xE3, CHR 0x80, CHR 0x80, CHR 0x09]"
  let ?c = "[CHR 0xC2, CHR 0xA0] @ ''FR'' @ [CHR 0x0A]"
  let ?wd = "[(''location'', PStr ?l), (''country'', PStr ?c)]"
  have 1: "py_or (dict_get ?nd ''dialog_metadata'' (PDict [])) (PDict []) = PDict []"
    by (simp add: py_or_def dict_get_def)
  have 2: "py_or (dict_get ?nd ''entities'' (PDict [])) (PDict []) = PDict ?en"
    by (simp add: py_or_def dict_get_def)
  have 3: "py_or (dict_get ?nd ''slots'' (PDict [])) (PDict []) = PDict []"
    by (simp add: py_or_def dict_get_def)
  have l: "py_or (py_or (dict_get ?wd ''location'' PNone) (dict_get ?en ''location'' PNone))
             (PStr '''') = PStr ?l"
    by (simp add: py_or_def dict_get_def)
  have c: "py_or (dict_get ?wd ''country'' PNone) (PStr '''') = PStr ?c"
    by (simp add: py_or_def dict_get_def)
  note g = build_merged_context_location [OF 1 2 3, THEN conjunct1, rule_format,
             OF conjI [OF l c], unfolded strip_paris_fr_spaced]
  show ?thesis
    using g by (simp add: py_or_def dict_get_def)
qed

section \<open>The response generator raises before the model is called\<close>

lemma extract_nlu_weather_missing:
  assumes "absent_or_empty d ''nlu'' \<or> absent_or_empty d ''weather''"
  shows "\<exists>e. extract_nlu_weather (PDict d) = Inl e"
proof -
  let ?n = "py_or_else (dict_get d ''nlu'' PNone)
              (seq (py_get (PDict d) ''agent_raw'' (PDict [])) (\<lambda>raw. py_get raw ''nlu'' PNone))"
  let ?w = "py_or_else (dict_get d ''weather'' PNone)
              (seq (py_get (PDict d) ''agent_raw'' (PDict [])) (\<lambda>raw. py_get raw ''weather'' PNone))"
  have nlu: "absent_or_empty d ''nlu'' \<Longrightarrow> (\<exists>e. ?n = Inl e) \<or> (\<exists>v. ?n = Inr v \<and> \<not> truthy v)"
    by (auto simp: absent_or_empty_def py_or_else_def dict_get_def
             split: option.splits pyval.splits)
  have wea: "absent_or_empty d ''weather'' \<Longrightarrow> (\<exists>e. ?w = Inl e) \<or> (\<exists>v. ?w = Inr v \<and> \<not> truthy v)"
    by (auto simp: absent_or_empty_def py_or_else_def dict_get_def
             split: option.splits pyval.splits)
  show ?thesis
    using assms nlu wea
    by (cases ?n; cases ?w) (auto simp: extract_nlu_weather_def)
qed

lemma generate_travel_response_missing:
  assumes "files w path = Some (PDict d)"
      and "absent_or_empty d ''nlu'' \<or> absent_or_empty d ''weather''"
  shows "\<exists>e. generate_travel_response env tid path api_key w = (Inl e, w)"
proof -
  obtain e where "extract_nlu_weather (PDict d) = Inl e"
    using extract_nlu_weather_missing [OF assms(2)] by blast
  then have "response_inputs path w = Inl e"
    using assms(1) by (simp add: response_inputs_def load_json_def)
  then show ?thesis
    by (simp add: generate_travel_response_def Let_def)
qed

text \<open>
  Claim C10. \<open>generate_travel_response\<close> raises, and the world it leaves is the one it was
  given (so the model has not been called), in each of these cases: no API key is
  available (neither the argument nor one of the two environment variables is set and
  non-empty); the sidecar record has no usable \<open>nlu\<close>, neither its own field nor the one
  under \<open>agent_raw\<close>; the same for \<open>weather\<close>. In particular the record of a failed run,
  \<open>{trace_id, status: failed, error, processed_at}\<close>, polled through the response entry
  point, gives a raised error (HTTP status 500) and not a response payload.
\<close>

theorem generate_travel_response_raises:
  "(\<not> opt_truthy (opt_or (opt_or api_key (OPENAI_API_KEY env)) (GOOGLE_API_KEY env)) \<longrightarrow>
      generate_travel_response env tid path api_key w =
        (Inl (Exn RuntimeError ''No API key provided for chatbot''), w)) \<and>
   (files w path = Some (PDict d) \<and> (absent_or_empty d ''nlu'' \<or> absent_or_empty d ''weather'') \<longrightarrow>
      (\<exists>e. generate_travel_response env tid path api_key w = (Inl e, w))) \<and>
   (files w (stt_sidecar_path env tid) =
      Some (PDict [(''trace_id'', PStr tid), (''status'', PStr ''failed''),
                   (''error'', PStr msg), (''processed_at'', PInt n)]) \<longrightarrow>
      (\<exists>m. get_chatbot_response env tid w = (Inl (Exn (HTTPException 500) m), w)))"
proof (intro conjI impI)
  assume "\<not> opt_truthy (opt_or (opt_or api_key (OPENAI_API_KEY env)) (GOOGLE_API_KEY env))"
  then show "generate_travel_response env tid path api_key w =
               (Inl (Exn RuntimeError ''No API key provided for chatbot''), w)"
    by (simp add: generate_travel_response_def Let_def)
next
  assume "files w path = Some (PDict d) \<and>
          (absent_or_empty d ''nlu'' \<or> absent_or_empty d ''weather'')"
  then show "\<exists>e. generate_travel_response env tid path api_key w = (Inl e, w)"
    using generate_travel_response_missing by blast
next
  let ?failed = "[(''trace_id'', PStr tid), (''status'', PStr ''failed''),
                  (''error'', PStr msg), (''processed_at'', PInt n)]"
  assume f: "files w (stt_sidecar_path env tid) = Some (PDict ?failed)"
  have "absent_or_empty ?failed ''nlu''"
    by (simp add: absent_or_empty_def dict_get_def)
  then obtain e where
    "generate_travel_response env tid (stt_sidecar_path env tid) None w = (Inl e, w)"
    using generate_travel_response_missing [OF f] by blast
  then show "\<exists>m. get_chatbot_response env tid w = (Inl (Exn (HTTPException 500) m), w)"
    using f by (simp add: get_chatbot_response_def Let_def)
qed

theorem generate_travel_response_raises_witness:
  "generate_travel_response (env0\<lparr>GOOGLE_API_KEY := None\<rparr>) ''t1'' ''uploads/t1.json'' None world_failed =
     (Inl (Exn RuntimeError ''No API key provided for chatbot''), world_failed) \<and>
   generate_travel_response env0 ''t1'' ''uploads/t1.json'' None world_failed =
     (Inl (Exn ValueError ''No NLU found in JSON''), world_failed) \<and>
   get_chatbot_response env0 ''t1'' world_failed =
     (Inl (Exn (HTTPException 500) ''chatbot_failed: No NLU found in JSON''), world_failed)"
proof -
  let ?failed = "[(''trace_id'', PStr ''t1''), (''status'', PStr ''failed''),
                  (''error'', PStr ''trace_id audio not found''), (''processed_at'', PInt 0)]"
  have k: "\<not> opt_truthy (opt_or (opt_or None (OPENAI_API_KEY (env0\<lparr>GOOGLE_API_KEY := None\<rparr>)))
                              (GOOGLE_API_KEY (env0\<lparr>GOOGLE_API_KEY := None\<rparr>)))"
    by (simp add: env0_def opt_or_def)
  have f: "files world_failed ''uploads/t1.json'' = Some (PDict ?failed)"
    by (simp add: world_failed_def)
  have a: "absent_or_empty ?failed ''nlu'' \<or> absent_or_empty ?failed ''weather''"
    by (simp add: absent_or_empty_def dict_get_def)
  have p: "stt_sidecar_path env0 ''t1'' = ''uploads/t1.json''"
    by (simp add: stt_sidecar_path_def path_join_def startswith_def env0_def)
  have g: "generate_travel_response env0 ''t1'' ''uploads/t1.json'' None world_failed =
             (Inl (Exn ValueError ''No NLU found in JSON''), world_failed)"
    using f by (simp add: generate_travel_response_def response_inputs_def load_json_def
                  extract_nlu_weather_def py_or_else_def dict_get_def opt_or_def env0_def)
  from generate_travel_response_raises
         [of None "env0\<lparr>GOOGLE_API_KEY := None\<rparr>" "''t1''" "''uploads/t1.json''" world_failed ?failed
             "''trace_id audio not found''" 0]
  have 1: "generate_travel_response (env0\<lparr>GOOGLE_API_KEY := None\<rparr>) ''t1'' ''uploads/t1.json'' None
             world_failed = (Inl (Exn RuntimeError ''No API key provided for chatbot''), world_failed)"
    using k by blast
  from generate_travel_response_raises
         [of None env0 "''t1''" "''uploads/t1.json''" world_failed ?failed
             "''trace_id audio not found''" 0]
  have 2: "\<exists>e. generate_travel_response env0 ''t1'' ''uploads/t1.json'' None world_failed =
             (Inl e, world_failed)"
    and 3: "\<exists>m. get_chatbot_response env0 ''t1'' world_failed =
             (Inl (Exn (HTTPException 500) m), world_failed)"
    using f a p by auto
  have 4: "get_chatbot_response env0 ''t1'' world_failed =
             (Inl (Exn (HTTPException 500) ''chatbot_failed: No NLU found in JSON''), world_failed)"
    using 3 g f by (simp add: get_chatbot_response_def p)
  show ?thesis using 1 2 g 4 by simp
qed

section \<open>The writes of the sidecar (C1)\<close>

text \<open>
  Claim C1 says that every later write of the sidecar, the failure write of the
  background wrapper included, preserves the fields written before. The failure write
  (lines 305 to 314) writes a new record of four fields. Here the file system refuses
  the text file of trace \<open>t1\<close> after the first checkpoint has been written: the sidecar
  is written twice, first the checkpoint with the transcript, then the record of the
  failure, which does not preserve the checkpoint (it has no \<open>text\<close>) and is what the
  sidecar holds at the end.
\<close>

theorem failure_write_discards_checkpoint:
  "writes_since ''uploads/t1.json'' world_audio
     (snd (background_process_trace env_txt_refused ''t1'' [''en-US'', ''ja-JP''] world_audio)) =
     [PDict first_checkpoint, failed_record ''t1'' ''Permission denied'' 0] \<and>
   \<not> preserves (PDict first_checkpoint) (failed_record ''t1'' ''Permission denied'' 0) \<and>
   map_of first_checkpoint ''text'' = Some (PStr ''weather in Tokyo today'') \<and>
   files (snd (background_process_trace env_txt_refused ''t1'' [''en-US'', ''ja-JP''] world_audio))
     ''uploads/t1.json'' = Some (failed_record ''t1'' ''Permission denied'' 0) \<and>
   py_get (failed_record ''t1'' ''Permission denied'' 0) ''text'' PNone = Inr PNone"
proof -
  have a: "writes_since ''uploads/t1.json'' world_audio
     (snd (background_process_trace env_txt_refused ''t1'' [''en-US'', ''ja-JP''] world_audio)) =
     [PDict first_checkpoint, failed_record ''t1'' ''Permission denied'' 0]"
    by (simp add: writes_since_def run_eval envs first_checkpoint_def failed_record_def)
  have b: "\<not> preserves (PDict first_checkpoint) (failed_record ''t1'' ''Permission denied'' 0)"
    by (simp add: preserves_def first_checkpoint_def failed_record_def)
  have c: "files (snd (background_process_trace env_txt_refused ''t1'' [''en-US'', ''ja-JP''] world_audio))
     ''uploads/t1.json'' = Some (failed_record ''t1'' ''Permission denied'' 0)"
    by (simp add: run_eval envs failed_record_def)
  have d: "py_get (failed_record ''t1'' ''Permission denied'' 0) ''text'' PNone = Inr PNone"
    by (simp add: failed_record_def dict_get_def)
  have e: "map_of first_checkpoint ''text'' = Some (PStr ''weather in Tokyo today'')"
    by (simp add: first_checkpoint_def)
  show ?thesis using a b c d e by blast
qed

text \<open>
  Claim C1, amended. Among the values written to the sidecar of a trace during a run of
  the background wrapper, in order, every value preserves every value written before it
  (each field of the earlier record other than \<open>warnings\<close> is in the later one with the
  same value, and the earlier warnings are the first warnings of the later record),
  unless it is the record \<open>{trace_id, status: failed, error, processed_at}\<close> of the
  wrapper's failure write. When the pipeline raises \<open>e\<close> and the file system does not
  refuse the failure write, the sidecar ends as exactly that record, with \<open>error\<close> the
  text of \<open>e\<close>, whatever had been written before.
\<close>

theorem sidecar_writes_chain:
  "sorted_wrt (\<lambda>a b. preserves a b \<or> (\<exists>msg n. b = failed_record tid msg n))
     (writes_since (stt_sidecar_path env tid) w
        (snd (background_process_trace env tid langs w))) \<and>
   (\<forall>e. fst (process_trace env tid langs w) = Inl e \<and>
        fs_fault env (Suc (length (events (snd (process_trace env tid langs w)))))
          (stt_sidecar_path env tid) = None \<longrightarrow>
        files (snd (background_process_trace env tid langs w)) (stt_sidecar_path env tid) =
          Some (failed_record tid (exn_str e)
                  (clock env (length (events (snd (process_trace env tid langs w))))
                     div 1000000)))"
proof (intro conjI allI impI)
  let ?p = "stt_sidecar_path env tid"
  let ?R = "\<lambda>a b. preserves a b \<or> (\<exists>msg n. b = failed_record tid msg n)"
  obtain a w1 where pt: "process_trace env tid langs w = (a, w1)"
    by (cases "process_trace env tid langs w")
  obtain res w' where bg: "background_process_trace env tid langs w = (res, w')"
    by (cases "background_process_trace env tid langs w")
  note pw = process_trace_writes [OF pt]
  have "sorted_wrt ?R (writes_since ?p w w')"
  proof (cases a)
    case (Inl e)
    then have wf: "write_failed env tid e w1 = (res, w')"
      using bg pt by (simp add: background_process_trace_def)
    from pw Inl consider "trace_step ?p w w1 []" | r where "trace_step ?p w w1 [PDict r]"
      by auto
    then show ?thesis
    proof cases
      case 1
      from write_failed_writes [OF wf] show ?thesis
      proof
        assume "trace_step ?p w1 w' []"
        then show ?thesis
          using trace_step_writes [OF trace_step_trans [OF 1]] by simp
      next
        assume "\<exists>n. trace_step ?p w1 w' [failed_record tid (exn_str e) n]"
        then obtain n where "trace_step ?p w1 w' [failed_record tid (exn_str e) n]" by blast
        then show ?thesis
          using trace_step_writes [OF trace_step_trans [OF 1]] by simp
      qed
    next
      case 2
      from write_failed_writes [OF wf] show ?thesis
      proof
        assume "trace_step ?p w1 w' []"
        then show ?thesis
          using trace_step_writes [OF trace_step_trans [OF 2]] by simp
      next
        assume "\<exists>n. trace_step ?p w1 w' [failed_record tid (exn_str e) n]"
        then obtain n where "trace_step ?p w1 w' [failed_record tid (exn_str e) n]" by blast
        then show ?thesis
          using trace_step_writes [OF trace_step_trans [OF 2]] by auto
      qed
    qed
  next
    case (Inr result)
    then have rs: "respond env tid result w1 = (res, w')"
      using bg pt by (simp add: background_process_trace_def)
    from pw Inr obtain r where
      s: "trace_step ?p w w1 [PDict r, PDict result]" and
      p: "preserves (PDict r) (PDict result)" and q: "pipeline_record result"
      by auto
    from respond_writes [OF rs q] show ?thesis
    proof
      assume "trace_step ?p w1 w' []"
      then show ?thesis
        using trace_step_writes [OF trace_step_trans [OF s]] p by simp
    next
      assume "\<exists>x. trace_step ?p w1 w' [x] \<and>
                (preserves (PDict result) x \<or> (\<exists>msg n. x = failed_record tid msg n))"
      then obtain x where x: "trace_step ?p w1 w' [x]"
          "preserves (PDict result) x \<or> (\<exists>msg n. x = failed_record tid msg n)"
        by blast
      have "preserves (PDict r) x \<or> (\<exists>msg n. x = failed_record tid msg n)"
        using x(2) preserves_trans [OF p] by blast
      then show ?thesis
        using trace_step_writes [OF trace_step_trans [OF s x(1)]] p x(2) by simp
    qed
  qed
  then show "sorted_wrt ?R (writes_since ?p w (snd (background_process_trace env tid langs w)))"
    using bg by simp
next
  fix e
  assume h: "fst (process_trace env tid langs w) = Inl e \<and>
        fs_fault env (Suc (length (events (snd (process_trace env tid langs w)))))
          (stt_sidecar_path env tid) = None"
  obtain w1 where pt: "process_trace env tid langs w = (Inl e, w1)"
    using h by (cases "process_trace env tid langs w") simp
  show "files (snd (background_process_trace env tid langs w)) (stt_sidecar_path env tid) =
          Some (failed_record tid (exn_str e)
                  (clock env (length (events (snd (process_trace env tid langs w))))
                     div 1000000))"
    using h pt
    by (simp add: background_process_trace_def write_failed_def read_clock_def fs_write_def
          failed_record_def Let_def emit_def)
qed

text \<open>
  The run of trace \<open>t1\<close> in which every service answers writes the sidecar three times,
  each write preserving the ones before; the run in which the text file is refused ends
  with the record of the failure.
\<close>

theorem sidecar_writes_chain_witness:
  "stt_sidecar_path env0 ''t1'' = ''uploads/t1.json'' \<and>
   length (writes_since ''uploads/t1.json'' world_audio
     (snd (background_process_trace env0 ''t1'' [''en-US'', ''ja-JP''] world_audio))) = 3 \<and>
   sorted_wrt (\<lambda>a b. preserves a b \<or> (\<exists>msg n. b = failed_record ''t1'' msg n))
     (writes_since ''uploads/t1.json'' world_audio
        (snd (background_process_trace env0 ''t1'' [''en-US'', ''ja-JP''] world_audio))) \<and>
   fst (process_trace env_txt_refused ''t1'' [''en-US'', ''ja-JP''] world_audio) =
     Inl (Exn OSError ''Permission denied'') \<and>
   files (snd (background_process_trace env_txt_refused ''t1'' [''en-US'', ''ja-JP''] world_audio))
     ''uploads/t1.json'' = Some (failed_record ''t1'' ''Permission denied'' 0)"
proof -
  have p: "stt_sidecar_path env0 ''t1'' = ''uploads/t1.json''"
    by (simp add: stt_sidecar_path_def path_join_def startswith_def env0_def)
  have p': "stt_sidecar_path env_txt_refused ''t1'' = ''uploads/t1.json''"
    by (simp add: stt_sidecar_path_def path_join_def startswith_def envs)
  have a: "length (writes_since ''uploads/t1.json'' world_audio
     (snd (background_process_trace env0 ''t1'' [''en-US'', ''ja-JP''] world_audio))) = 3"
    by (simp add: writes_since_def run_eval strip_eval envs tokyo_weather_def)
  have b: "fst (process_trace env_txt_refused ''t1'' [''en-US'', ''ja-JP''] world_audio) =
     Inl (Exn OSError ''Permission denied'')"
    by (simp add: run_eval envs)
  have c: "fs_fault env_txt_refused
             (Suc (length (events (snd (process_trace env_txt_refused ''t1'' [''en-US'', ''ja-JP'']
                world_audio)))))
             (stt_sidecar_path env_txt_refused ''t1'') = None"
    unfolding p' by (simp add: env_txt_refused_def)
  have d: "clock env_txt_refused n = 0" for n
    by (simp add: envs)
  note s = sidecar_writes_chain [where tid = "''t1''" and env = env0
      and langs = "[''en-US'', ''ja-JP'']" and w = world_audio, THEN conjunct1, unfolded p]
  note f = sidecar_writes_chain [where tid = "''t1''" and env = env_txt_refused
      and langs = "[''en-US'', ''ja-JP'']" and w = world_audio, THEN conjunct2, rule_format,
      OF conjI [OF b c], unfolded p' d]
  show ?thesis using p a s b f by simp
qed

end
